theory Spec2Isabelle
  imports Main "HOL-Library.AList" "HOL-Library.Sublist" "HOL-Library.Multiset"
begin

section \<open>Python values\<close>

text \<open>
  The raw game records come from \<^verbatim>\<open>json.load\<close>, so a value is \<^verbatim>\<open>None\<close>, a bool, an
  int, a str, a list or a dict with string keys. A dict is an association list in
  insertion order; a lookup takes the first binding of a key, and \<open>AList.update\<close> is
  Python's item assignment (an existing key keeps its place, a new key goes last).
  Floats are not modelled. Strings are lists of code points below 256; the case
  conversions and the integer parser are those of Python on ASCII, and code points
  from 128 on are left alone by them.
  An exception is a value of \<open>py_exception\<close> on the left of a sum.
\<close>

datatype py_exception = TypeError | AttributeError | ValueError | KeyError | IndexError

datatype json =
    JNull
  | JBool bool
  | JInt int
  | JStr string
  | JArr "json list"
  | JObj "(string \<times> json) list"

type_synonym dict = "(string \<times> json) list"

definition exn_bind :: "'e + 'a \<Rightarrow> ('a \<Rightarrow> 'e + 'b) \<Rightarrow> 'e + 'b" where
  "exn_bind m f = (case m of Inl e \<Rightarrow> Inl e | Inr x \<Rightarrow> f x)"

subsection \<open>\<^verbatim>\<open>str\<close> and \<^verbatim>\<open>repr\<close>\<close>

fun dec_digits :: "nat \<Rightarrow> string" where
  "dec_digits n =
     (if n < 10 then [char_of (48 + n)]
      else dec_digits (n div 10) @ [char_of (48 + n mod 10)])"

definition str_int :: "int \<Rightarrow> string" where
  "str_int i = (if i < 0 then CHR ''-'' # dec_digits (nat (- i)) else dec_digits (nat i))"

definition hex_digit :: "nat \<Rightarrow> char" where
  "hex_digit d = (if d < 10 then char_of (48 + d) else char_of (87 + d))"

definition py_printable :: "char \<Rightarrow> bool" where
  "py_printable c =
     (let n = (of_char c :: nat) in (32 \<le> n \<and> n < 127) \<or> (161 \<le> n \<and> n \<noteq> 173))"

definition repr_char :: "char \<Rightarrow> char \<Rightarrow> string" where
  "repr_char q c =
     (if c = q \<or> c = CHR 0x5C then [CHR 0x5C, c]
      else if c = CHR 0x09 then [CHR 0x5C, CHR ''t'']
      else if c = CHR 0x0A then [CHR 0x5C, CHR ''n'']
      else if c = CHR 0x0D then [CHR 0x5C, CHR ''r'']
      else if py_printable c then [c]
      else [CHR 0x5C, CHR ''x'', hex_digit (of_char c div 16), hex_digit (of_char c mod 16)])"

definition repr_str :: "string \<Rightarrow> string" where
  "repr_str s =
     (let q = (if CHR 0x27 \<in> set s \<and> CHR 0x22 \<notin> set s then CHR 0x22 else CHR 0x27)
      in [q] @ concat (map (repr_char q) s) @ [q])"

fun py_join :: "string \<Rightarrow> string list \<Rightarrow> string" where
  "py_join sep [] = []"
| "py_join sep [x] = x"
| "py_join sep (x # y # ys) = x @ sep @ py_join sep (y # ys)"

fun py_repr :: "json \<Rightarrow> string" where
  "py_repr JNull = ''None''"
| "py_repr (JBool b) = (if b then ''True'' else ''False'')"
| "py_repr (JInt i) = str_int i"
| "py_repr (JStr s) = repr_str s"
| "py_repr (JArr xs) = ''['' @ py_join '', '' (map py_repr xs) @ '']''"
| "py_repr (JObj kvs) =
     ''{'' @ py_join '', '' (map (\<lambda>(k, v). repr_str k @ '': '' @ py_repr v) kvs) @ ''}''"

definition py_str :: "json \<Rightarrow> string" where
  "py_str v = (case v of JStr s \<Rightarrow> s | _ \<Rightarrow> py_repr v)"

subsection \<open>String methods\<close>

definition lower_char :: "char \<Rightarrow> char" where
  "lower_char c =
     (let n = (of_char c :: nat) in if 65 \<le> n \<and> n \<le> 90 then char_of (n + 32) else c)"

definition upper_char :: "char \<Rightarrow> char" where
  "upper_char c =
     (let n = (of_char c :: nat) in if 97 \<le> n \<and> n \<le> 122 then char_of (n - 32) else c)"

definition is_cased :: "char \<Rightarrow> bool" where
  "is_cased c = (let n = (of_char c :: nat) in (65 \<le> n \<and> n \<le> 90) \<or> (97 \<le> n \<and> n \<le> 122))"

definition py_lower :: "string \<Rightarrow> string" where
  "py_lower s = map lower_char s"

text \<open>\<^verbatim>\<open>str.title\<close>: a cased character after an uncased one is put in upper case, after
  a cased one in lower case.\<close>

fun title_from :: "bool \<Rightarrow> string \<Rightarrow> string" where
  "title_from prev [] = []"
| "title_from prev (c # cs) =
     (if prev then lower_char c else upper_char c) # title_from (is_cased c) cs"

definition py_title :: "string \<Rightarrow> string" where
  "py_title s = title_from False s"

definition py_isspace :: "char \<Rightarrow> bool" where
  "py_isspace c =
     (let n = (of_char c :: nat)
      in (9 \<le> n \<and> n \<le> 13) \<or> (28 \<le> n \<and> n \<le> 32) \<or> n = 133 \<or> n = 160)"

definition py_strip :: "string \<Rightarrow> string" where
  "py_strip s = rev (dropWhile py_isspace (rev (dropWhile py_isspace s)))"

text \<open>\<^verbatim>\<open>sub in s\<close> on strings.\<close>

fun is_substring :: "string \<Rightarrow> string \<Rightarrow> bool" where
  "is_substring sub [] = (sub = [])"
| "is_substring sub (c # cs) = (prefix sub (c # cs) \<or> is_substring sub cs)"

text \<open>The first occurrence of a separator: what stands before it and what after.\<close>

fun find_sep :: "string \<Rightarrow> string \<Rightarrow> (string \<times> string) option" where
  "find_sep sep [] = (if sep = [] then Some ([], []) else None)"
| "find_sep sep (c # cs) =
     (if prefix sep (c # cs) then Some ([], drop (length sep) (c # cs))
      else map_option (\<lambda>(a, b). (c # a, b)) (find_sep sep cs))"

lemma find_sep_shorter:
  "find_sep sep s = Some (a, b) \<Longrightarrow> sep \<noteq> [] \<Longrightarrow> length b < length s"
proof (induction s arbitrary: a)
  case Nil
  then show ?case by simp
next
  case (Cons c cs)
  show ?case
  proof (cases "prefix sep (c # cs)")
    case True
    with Cons.prems show ?thesis by (cases sep) auto
  next
    case False
    with Cons.prems obtain a' where "find_sep sep cs = Some (a', b)"
      by (auto split: prod.splits)
    with Cons.IH Cons.prems(2) show ?thesis by fastforce
  qed
qed

text \<open>\<^verbatim>\<open>s.split(sep)\<close> for a separator that is not empty (Python raises ValueError on an
  empty one; the program only splits on \<^verbatim>\<open>'+'\<close> and \<^verbatim>\<open>'/openings/'\<close>).\<close>

function py_split :: "string \<Rightarrow> string \<Rightarrow> string list" where
  "py_split sep s =
     (if sep = [] then [s]
      else case find_sep sep s of
             None \<Rightarrow> [s]
           | Some (a, b) \<Rightarrow> a # py_split sep b)"
  by pat_completeness auto
termination
  by (relation "measure (\<lambda>(sep, s). length s)") (auto dest: find_sep_shorter)

declare py_split.simps [simp del]

text \<open>\<^verbatim>\<open>s.replace(old, new)\<close> for a pattern that is not empty: the pieces between the
  occurrences of \<open>old\<close>, joined by \<open>new\<close>.\<close>

definition py_replace :: "string \<Rightarrow> string \<Rightarrow> string \<Rightarrow> string" where
  "py_replace old new s = py_join new (py_split old s)"

subsection \<open>\<^verbatim>\<open>int(str)\<close>\<close>

definition is_digit :: "char \<Rightarrow> bool" where
  "is_digit c = (let n = (of_char c :: nat) in 48 \<le> n \<and> n \<le> 57)"

text \<open>Digits with single underscores between them.\<close>

fun digits_ok :: "bool \<Rightarrow> string \<Rightarrow> bool" where
  "digits_ok after_digit [] = after_digit"
| "digits_ok after_digit (c # cs) =
     (if is_digit c then digits_ok True cs
      else c = CHR ''_'' \<and> after_digit \<and> cs \<noteq> [] \<and> is_digit (hd cs) \<and> digits_ok False cs)"

definition digits_value :: "string \<Rightarrow> int" where
  "digits_value s = foldl (\<lambda>acc c. 10 * acc + (int (of_char c) - 48)) 0 (filter is_digit s)"

definition py_int :: "string \<Rightarrow> py_exception + int" where
  "py_int s =
     (let t = py_strip s;
          (neg, u) = (case t of
                        c # cs \<Rightarrow> if c = CHR ''-'' then (True, cs)
                                  else if c = CHR ''+'' then (False, cs) else (False, t)
                      | [] \<Rightarrow> (False, t))
      in if digits_ok False u then Inr (if neg then - digits_value u else digits_value u)
         else Inl ValueError)"

subsection \<open>Operators on values\<close>

definition py_truthy :: "json \<Rightarrow> bool" where
  "py_truthy v =
     (case v of
        JNull \<Rightarrow> False
      | JBool b \<Rightarrow> b
      | JInt i \<Rightarrow> i \<noteq> 0
      | JStr s \<Rightarrow> s \<noteq> []
      | JArr xs \<Rightarrow> xs \<noteq> []
      | JObj kvs \<Rightarrow> kvs \<noteq> [])"

text \<open>\<^verbatim>\<open>a == b\<close>: a bool is the integer 0 or 1; lists are equal elementwise; dicts are
  equal when they have the same keys with equal values.\<close>

fun py_eq :: "json \<Rightarrow> json \<Rightarrow> bool" where
  "py_eq JNull JNull = True"
| "py_eq (JBool a) (JBool b) = (a = b)"
| "py_eq (JBool a) (JInt b) = ((if a then 1 else 0) = b)"
| "py_eq (JInt a) (JBool b) = (a = (if b then 1 else 0))"
| "py_eq (JInt a) (JInt b) = (a = b)"
| "py_eq (JStr a) (JStr b) = (a = b)"
| "py_eq (JArr xs) (JArr ys) = list_all2 py_eq xs ys"
| "py_eq (JObj a) (JObj b) =
     (set (map fst a) = set (map fst b) \<and>
      list_all (\<lambda>(k, v). case map_of b k of
                            None \<Rightarrow> False
                          | Some w \<Rightarrow> map_of a k \<noteq> Some v \<or> py_eq v w) a)"
| "py_eq _ _ = False"

text \<open>\<^verbatim>\<open>a - b\<close>: defined on numbers, TypeError on everything else.\<close>

definition as_number :: "json \<Rightarrow> int option" where
  "as_number v = (case v of JInt i \<Rightarrow> Some i | JBool b \<Rightarrow> Some (if b then 1 else 0) | _ \<Rightarrow> None)"

definition py_sub :: "json \<Rightarrow> json \<Rightarrow> py_exception + json" where
  "py_sub a b =
     (case (as_number a, as_number b) of
        (Some x, Some y) \<Rightarrow> Inr (JInt (x - y))
      | _ \<Rightarrow> Inl TypeError)"

definition hashable :: "json \<Rightarrow> bool" where
  "hashable v = (case v of JArr _ \<Rightarrow> False | JObj _ \<Rightarrow> False | _ \<Rightarrow> True)"

text \<open>\<^verbatim>\<open>item in container\<close>: a substring test on a str (the item must be a str), a
  search by \<^verbatim>\<open>==\<close> in a list, a key test on a dict (the item must be hashable);
  TypeError on a container that is not iterable.\<close>

definition py_in :: "json \<Rightarrow> json \<Rightarrow> py_exception + bool" where
  "py_in item container =
     (case container of
        JStr s \<Rightarrow> (case item of JStr t \<Rightarrow> Inr (is_substring t s) | _ \<Rightarrow> Inl TypeError)
      | JArr xs \<Rightarrow> Inr (list_ex (py_eq item) xs)
      | JObj kvs \<Rightarrow>
          (if hashable item
           then Inr (case item of JStr k \<Rightarrow> k \<in> set (map fst kvs) | _ \<Rightarrow> False)
           else Inl TypeError)
      | _ \<Rightarrow> Inl TypeError)"

text \<open>\<^verbatim>\<open>d.get(k, default)\<close> on a dict, \<^verbatim>\<open>v.get(k, default)\<close> on any value (only a dict
  has the method), \<^verbatim>\<open>v[k]\<close> with a string key on any value (only a dict takes one).\<close>

definition dict_get :: "dict \<Rightarrow> string \<Rightarrow> json \<Rightarrow> json" where
  "dict_get d k dflt = (case map_of d k of None \<Rightarrow> dflt | Some v \<Rightarrow> v)"

definition attr_get :: "json \<Rightarrow> string \<Rightarrow> json \<Rightarrow> py_exception + json" where
  "attr_get v k dflt = (case v of JObj d \<Rightarrow> Inr (dict_get d k dflt) | _ \<Rightarrow> Inl AttributeError)"

definition dict_item :: "dict \<Rightarrow> string \<Rightarrow> py_exception + json" where
  "dict_item d k = (case map_of d k of None \<Rightarrow> Inl KeyError | Some v \<Rightarrow> Inr v)"

definition py_getitem :: "json \<Rightarrow> string \<Rightarrow> py_exception + json" where
  "py_getitem v k = (case v of JObj d \<Rightarrow> dict_item d k | _ \<Rightarrow> Inl TypeError)"

text \<open>Iteration: the elements of a list, the characters of a str, the keys of a dict.\<close>

definition py_iter :: "json \<Rightarrow> py_exception + json list" where
  "py_iter v =
     (case v of
        JArr xs \<Rightarrow> Inr xs
      | JStr s \<Rightarrow> Inr (map (\<lambda>c. JStr [c]) s)
      | JObj kvs \<Rightarrow> Inr (map JStr (remdups (map fst kvs)))
      | _ \<Rightarrow> Inl TypeError)"

section \<open>The notation parser (\<^verbatim>\<open>utils.parse_pgn_game\<close>)\<close>

text \<open>
  The parser is a wrapper around the python-chess library, which is not part of the
  repository. What the wrapper calls of it is a parameter: reading a game from the text
  (which raises, finds no game, or yields a game), the header lookup, the starting
  board of a game (which raises on headers that describe no position), the moves of
  the main line and pushing a move on a board.
\<close>

record ('g, 'b, 'm) chess_pgn =
  read_game :: "string \<Rightarrow> py_exception + 'g option"
  headers_get :: "'g \<Rightarrow> string \<Rightarrow> string option"
  board :: "'g \<Rightarrow> py_exception + 'b"
  mainline_moves :: "'g \<Rightarrow> 'm list"
  push :: "'b \<Rightarrow> 'm \<Rightarrow> py_exception + 'b"

definition opt_str :: "string option \<Rightarrow> json" where
  "opt_str h = (case h of None \<Rightarrow> JNull | Some s \<Rightarrow> JStr s)"

text \<open>The loop of lines 134 to 138: every move is pushed and counted.\<close>

fun count_moves :: "('g, 'b, 'm) chess_pgn \<Rightarrow> 'b \<Rightarrow> 'm list \<Rightarrow> int \<Rightarrow> py_exception + int" where
  "count_moves lib b [] move_count = Inr move_count"
| "count_moves lib b (m # ms) move_count =
     (case push lib b m of
        Inl e \<Rightarrow> Inl e
      | Inr b' \<Rightarrow> count_moves lib b' ms (move_count + 1))"

text \<open>Lines 122 to 131: the opening name from the \<^verbatim>\<open>ECOUrl\<close> header, when the
  \<^verbatim>\<open>Opening\<close> header gave none.\<close>

definition opening_from_url :: "('g, 'b, 'm) chess_pgn \<Rightarrow> 'g \<Rightarrow> dict \<Rightarrow> dict" where
  "opening_from_url lib game game_info =
     (if \<not> py_truthy (dict_get game_info ''opening_name'' JNull)
      then (let eco_url = (case headers_get lib game ''ECOUrl'' of None \<Rightarrow> [] | Some u \<Rightarrow> u)
            in if eco_url \<noteq> []
               then (case py_split ''/openings/'' eco_url of
                       p0 # p1 # ps \<Rightarrow>
                         (let raw_name = py_replace ''-'' '' '' p1
                          in AList.update ''opening_name''
                               (JStr (py_title (py_strip (py_replace ''...'' '' '' raw_name))))
                               game_info)
                     | _ \<Rightarrow> game_info)
               else game_info)
      else game_info)"

text \<open>
  The whole body of \<^verbatim>\<open>parse_pgn_game\<close> stands in a \<^verbatim>\<open>try\<close> whose handler logs and falls
  through to \<^verbatim>\<open>return game_info\<close>: an exception at any point returns the dict as it
  has been filled so far. \<open>read_pgn\<close> is lines 110 and 111: \<^verbatim>\<open>StringIO\<close> takes a str or
  \<^verbatim>\<open>None\<close> (an empty buffer) and raises TypeError on anything else.
\<close>

definition read_pgn :: "('g, 'b, 'm) chess_pgn \<Rightarrow> json \<Rightarrow> py_exception + 'g option" where
  "read_pgn lib pgn_string =
     (case pgn_string of
        JStr s \<Rightarrow> read_game lib s
      | JNull \<Rightarrow> read_game lib []
      | _ \<Rightarrow> Inl TypeError)"

definition parse_pgn_game :: "('g, 'b, 'm) chess_pgn \<Rightarrow> json \<Rightarrow> dict" where
  "parse_pgn_game lib pgn_string =
     (let game_info = [(''move_count'', JInt 0), (''eco_code'', JNull),
                       (''opening_name'', JNull), (''result'', JNull)]
      in case read_pgn lib pgn_string of
           Inl e \<Rightarrow> game_info
         | Inr None \<Rightarrow> game_info
         | Inr (Some game) \<Rightarrow>
             (let game_info = AList.update ''eco_code'' (opt_str (headers_get lib game ''ECO'')) game_info;
                  game_info = AList.update ''opening_name'' (opt_str (headers_get lib game ''Opening'')) game_info;
                  game_info = AList.update ''result'' (opt_str (headers_get lib game ''Result'')) game_info;
                  game_info = opening_from_url lib game game_info
              in case board lib game of
                   Inl e \<Rightarrow> game_info
                 | Inr b \<Rightarrow>
                     (case count_moves lib b (mainline_moves lib game) 0 of
                        Inl e \<Rightarrow> game_info
                      | Inr move_count \<Rightarrow> AList.update ''move_count'' (JInt move_count) game_info)))"

text \<open>The value \<^verbatim>\<open>game_info\<close> starts from: no moves, nothing read.\<close>

definition zero_info :: dict where
  "zero_info = [(''move_count'', JInt 0), (''eco_code'', JNull),
                (''opening_name'', JNull), (''result'', JNull)]"

section \<open>The record normalizer (\<^verbatim>\<open>ChessProcessor.extract_game_data\<close>)\<close>

subsection \<open>Validation (\<^verbatim>\<open>utils.validate_chess_data\<close>)\<close>

fun has_fields :: "string list \<Rightarrow> json \<Rightarrow> py_exception + bool" where
  "has_fields [] game_data = Inr True"
| "has_fields (field # more_fields) game_data =
     (case py_in (JStr field) game_data of
        Inl e \<Rightarrow> Inl e
      | Inr present \<Rightarrow> if \<not> present then Inr False else has_fields more_fields game_data)"

definition required_fields :: "string list" where
  "required_fields = [''white'', ''black'', ''end_time'', ''pgn'']"

definition validate_chess_data :: "json \<Rightarrow> py_exception + bool" where
  "validate_chess_data game_data = has_fields required_fields game_data"

subsection \<open>The steps of the extraction\<close>

text \<open>
  \<^verbatim>\<open>datetime.fromtimestamp\<close> converts in the local time zone of the machine and raises
  on a value that is no timestamp or out of range; it is a parameter, which gives the
  four formatted fields (date, date and time, year, month).
  \<^verbatim>\<open>DataFrame.sort_values\<close> is called with pandas' default sorting algorithm; it is a
  parameter too.
\<close>

record platform =
  fromtimestamp :: "json \<Rightarrow> py_exception + (string \<times> string \<times> int \<times> string)"
  sort_values :: "string \<Rightarrow> dict list \<Rightarrow> py_exception + dict list"

text \<open>Lines 45 to 55; \<open>player_field game side k dflt\<close> is \<^verbatim>\<open>game[side].get(k, dflt)\<close>.\<close>

definition player_field :: "json \<Rightarrow> string \<Rightarrow> string \<Rightarrow> json \<Rightarrow> py_exception + json" where
  "player_field game side k dflt = exn_bind (py_getitem game side) (\<lambda>player. attr_get player k dflt)"

definition basic_information :: "json \<Rightarrow> py_exception + dict" where
  "basic_information game =
     exn_bind (player_field game ''white'' ''username'' (JStr [])) (\<lambda>white_username.
     exn_bind (player_field game ''black'' ''username'' (JStr [])) (\<lambda>black_username.
     exn_bind (player_field game ''white'' ''rating'' (JInt 0)) (\<lambda>white_rating.
     exn_bind (player_field game ''black'' ''rating'' (JInt 0)) (\<lambda>black_rating.
     exn_bind (attr_get game ''result'' (JStr [])) (\<lambda>res.
     exn_bind (attr_get game ''end_time'' (JInt 0)) (\<lambda>end_time.
     exn_bind (attr_get game ''time_control'' (JStr [])) (\<lambda>time_control.
     exn_bind (attr_get game ''url'' (JStr [])) (\<lambda>url.
     exn_bind (attr_get game ''pgn'' (JStr [])) (\<lambda>pgn.
       Inr [(''white_username'', white_username),
            (''black_username'', black_username),
            (''white_rating'', white_rating),
            (''black_rating'', black_rating),
            (''result'', res),
            (''end_time'', end_time),
            (''time_control'', time_control),
            (''url'', url),
            (''pgn'', pgn)])))))))))"

text \<open>Lines 58 to 74.\<close>

definition no_date :: "dict \<Rightarrow> dict" where
  "no_date extracted =
     AList.update ''month'' (JStr [])
       (AList.update ''year'' (JInt 0)
         (AList.update ''end_datetime'' (JStr [])
           (AList.update ''end_date'' (JStr []) extracted)))"

definition date_parts :: "platform \<Rightarrow> dict \<Rightarrow> py_exception + dict" where
  "date_parts pf extracted =
     exn_bind (dict_item extracted ''end_time'') (\<lambda>end_time.
       if py_truthy end_time
       then (case fromtimestamp pf end_time of
               Inr (d, dt, y, m) \<Rightarrow>
                 Inr (AList.update ''month'' (JStr m)
                       (AList.update ''year'' (JInt y)
                         (AList.update ''end_datetime'' (JStr dt)
                           (AList.update ''end_date'' (JStr d) extracted))))
             | Inl e \<Rightarrow> Inr (no_date extracted))
       else Inr (no_date extracted))"

text \<open>Line 77.\<close>

definition rating_difference :: "dict \<Rightarrow> py_exception + dict" where
  "rating_difference extracted =
     exn_bind (dict_item extracted ''white_rating'') (\<lambda>white_rating.
     exn_bind (dict_item extracted ''black_rating'') (\<lambda>black_rating.
     exn_bind (py_sub white_rating black_rating) (\<lambda>d.
       Inr (AList.update ''rating_diff'' d extracted))))"

text \<open>Lines 80 to 95. A descriptor that is no str has no \<^verbatim>\<open>split\<close>; the bare \<^verbatim>\<open>except\<close>
  takes that and the ValueError of \<^verbatim>\<open>int\<close> alike.\<close>

definition base_time :: "json \<Rightarrow> py_exception + int" where
  "base_time time_control =
     (case time_control of
        JStr s \<Rightarrow> (case py_split ''+'' s of p # ps \<Rightarrow> py_int p | [] \<Rightarrow> Inl IndexError)
      | _ \<Rightarrow> Inl AttributeError)"

definition game_type :: "dict \<Rightarrow> py_exception + dict" where
  "game_type extracted =
     exn_bind (dict_item extracted ''time_control'') (\<lambda>time_control.
       Inr (AList.update ''game_type''
             (JStr (case base_time time_control of
                      Inr t \<Rightarrow> if t \<le> 180 then ''bullet''
                               else if t \<le> 600 then ''blitz''
                               else ''rapid''
                    | Inl e \<Rightarrow> if is_substring ''/'' (py_str time_control) then ''daily''
                               else ''unknown''))
             extracted))"

text \<open>Lines 98 to 112.\<close>

definition pgn_information :: "('g, 'b, 'm) chess_pgn \<Rightarrow> dict \<Rightarrow> py_exception + dict" where
  "pgn_information lib extracted =
     exn_bind (dict_item extracted ''pgn'') (\<lambda>pgn.
       if py_truthy pgn
       then (let pgn_info = parse_pgn_game lib pgn in
             exn_bind (dict_item pgn_info ''move_count'') (\<lambda>move_count.
             exn_bind (dict_item pgn_info ''eco_code'') (\<lambda>eco_code.
             exn_bind (dict_item pgn_info ''opening_name'') (\<lambda>opening_name.
             exn_bind (dict_item pgn_info ''result'') (\<lambda>pgn_result.
               Inr (AList.update ''pgn_result'' pgn_result
                     (AList.update ''opening_name'' opening_name
                       (AList.update ''eco_code'' eco_code
                         (AList.update ''move_count'' move_count extracted)))))))))
       else Inr (AList.update ''pgn_result'' JNull
                  (AList.update ''opening_name'' JNull
                    (AList.update ''eco_code'' JNull
                      (AList.update ''move_count'' (JInt 0) extracted)))))"

text \<open>Lines 115 to 135: the outcome ladder.\<close>

definition draw_tokens :: "string list" where
  "draw_tokens = [''agreed'', ''repetition'', ''stalemate'', ''insufficient'', ''50move'',
                  ''timevsinsufficient'']"

definition player_result :: "json \<Rightarrow> string \<Rightarrow> py_exception + string" where
  "player_result game side =
     exn_bind (attr_get game side (JObj [])) (\<lambda>player.
     exn_bind (attr_get player ''result'' (JStr [])) (\<lambda>r.
       Inr (py_lower (py_str r))))"

definition winner_and_result :: "json \<Rightarrow> dict \<Rightarrow> py_exception + dict" where
  "winner_and_result game extracted =
     exn_bind (player_result game ''white'') (\<lambda>white_result.
     exn_bind (player_result game ''black'') (\<lambda>black_result.
       if white_result = ''win''
       then exn_bind (dict_item extracted ''white_username'') (\<lambda>white_username.
              Inr (AList.update ''result_category'' (JStr black_result)
                    (AList.update ''result'' (JStr ''1-0'')
                      (AList.update ''winner'' white_username extracted))))
       else if black_result = ''win''
       then exn_bind (dict_item extracted ''black_username'') (\<lambda>black_username.
              Inr (AList.update ''result_category'' (JStr white_result)
                    (AList.update ''result'' (JStr ''0-1'')
                      (AList.update ''winner'' black_username extracted))))
       else if list_ex (\<lambda>r. r \<in> set draw_tokens) [white_result, black_result]
       then Inr (AList.update ''result_category'' (JStr white_result)
                  (AList.update ''result'' (JStr ''1/2-1/2'')
                    (AList.update ''winner'' (JStr ''draw'') extracted)))
       else (let extracted = AList.update ''result''
                               (dict_get extracted ''pgn_result'' (JStr ''1/2-1/2'')) extracted
             in exn_bind (dict_item extracted ''result'') (\<lambda>res.
                exn_bind (py_in (JStr ''1/2-1/2'') res) (\<lambda>is_half.
                  Inr (AList.update ''result_category'' (JStr (white_result @ ''/'' @ black_result))
                        (AList.update ''winner'' (JStr (if is_half then ''draw'' else []))
                          extracted)))))))"

text \<open>Lines 138 to 140.\<close>

definition boolean_flags :: "dict \<Rightarrow> py_exception + dict" where
  "boolean_flags extracted =
     exn_bind (dict_item extracted ''winner'') (\<lambda>winner.
     exn_bind (dict_item extracted ''white_username'') (\<lambda>white_username.
     exn_bind (dict_item extracted ''black_username'') (\<lambda>black_username.
       Inr (AList.update ''is_draw'' (JBool (py_eq winner (JStr ''draw'')))
             (AList.update ''black_win'' (JBool (py_eq winner black_username))
               (AList.update ''white_win'' (JBool (py_eq winner white_username)) extracted))))))"

subsection \<open>\<^verbatim>\<open>extract_game_data\<close>\<close>

text \<open>The body of the \<^verbatim>\<open>try\<close>: \<open>Inr None\<close> is the early \<^verbatim>\<open>return None\<close> of the
  validation, \<open>Inl\<close> an exception on the way.\<close>

definition extract_game_data_body ::
  "('g, 'b, 'm) chess_pgn \<Rightarrow> platform \<Rightarrow> json \<Rightarrow> py_exception + dict option" where
  "extract_game_data_body lib pf game =
     exn_bind (validate_chess_data game) (\<lambda>valid.
       if \<not> valid then Inr None
       else exn_bind (basic_information game) (\<lambda>extracted.
            exn_bind (date_parts pf extracted) (\<lambda>extracted.
            exn_bind (rating_difference extracted) (\<lambda>extracted.
            exn_bind (game_type extracted) (\<lambda>extracted.
            exn_bind (pgn_information lib extracted) (\<lambda>extracted.
            exn_bind (winner_and_result game extracted) (\<lambda>extracted.
            exn_bind (boolean_flags extracted) (\<lambda>extracted.
              Inr (Some extracted)))))))))"

text \<open>The handler of the \<^verbatim>\<open>try\<close> logs a warning and returns \<^verbatim>\<open>None\<close>.\<close>

definition extract_game_data ::
  "('g, 'b, 'm) chess_pgn \<Rightarrow> platform \<Rightarrow> json \<Rightarrow> dict option" where
  "extract_game_data lib pf game =
     (case extract_game_data_body lib pf game of
        Inl e \<Rightarrow> None
      | Inr r \<Rightarrow> r)"

section \<open>The dataset builder (\<^verbatim>\<open>ChessProcessor.process_all_files\<close>)\<close>

text \<open>
  A file is what \<^verbatim>\<open>load_json_safely\<close> returned for it: \<open>None\<close> when it could not be
  read, else the parsed value. A data frame is the list of its rows, each row a dict
  from column names to values.
\<close>

text \<open>The loop of lines 165 to 168.\<close>

fun extract_all :: "('g, 'b, 'm) chess_pgn \<Rightarrow> platform \<Rightarrow> json list \<Rightarrow> dict list" where
  "extract_all lib pf [] = []"
| "extract_all lib pf (game # games) =
     (case extract_game_data lib pf game of
        None \<Rightarrow> extract_all lib pf games
      | Some extracted \<Rightarrow>
          if extracted \<noteq> [] then extracted # extract_all lib pf games
          else extract_all lib pf games)"

definition process_json_file ::
  "('g, 'b, 'm) chess_pgn \<Rightarrow> platform \<Rightarrow> json option \<Rightarrow> py_exception + dict list" where
  "process_json_file lib pf loaded =
     (case loaded of
        None \<Rightarrow> Inr []
      | Some content \<Rightarrow>
          if \<not> py_truthy content then Inr []
          else exn_bind (attr_get content ''games'' (JArr [])) (\<lambda>games.
               exn_bind (py_iter games) (\<lambda>gs.
                 Inr (extract_all lib pf gs))))"

text \<open>The loop of lines 189 to 191.\<close>

fun all_games :: "('g, 'b, 'm) chess_pgn \<Rightarrow> platform \<Rightarrow> json option list \<Rightarrow> py_exception + dict list" where
  "all_games lib pf [] = Inr []"
| "all_games lib pf (f # fs) =
     (case process_json_file lib pf f of
        Inl e \<Rightarrow> Inl e
      | Inr games \<Rightarrow>
          (case all_games lib pf fs of
             Inl e \<Rightarrow> Inl e
           | Inr others \<Rightarrow> Inr (games @ others)))"

text \<open>
  \<^verbatim>\<open>df.drop_duplicates(subset=[col], keep='first')\<close>: the rows are scanned in order
  against the table of the values seen so far; a row whose value is already in the
  table is dropped. The table hashes the values, so a list or a dict in the column
  raises TypeError. A column a row has no key for holds a missing value there.
\<close>

definition column :: "string \<Rightarrow> dict \<Rightarrow> json" where
  "column col row = dict_get row col JNull"

fun keep_first :: "string \<Rightarrow> json list \<Rightarrow> dict list \<Rightarrow> dict list" where
  "keep_first col seen [] = []"
| "keep_first col seen (row # rows) =
     (if list_ex (py_eq (column col row)) seen then keep_first col seen rows
      else row # keep_first col (column col row # seen) rows)"

definition drop_duplicates :: "string \<Rightarrow> dict list \<Rightarrow> py_exception + dict list" where
  "drop_duplicates col df =
     (if list_all (\<lambda>row. hashable (column col row)) df then Inr (keep_first col [] df)
      else Inl TypeError)"

text \<open>Lines 180 to 212. The empty list is the empty data frame of the two early
  returns.\<close>

definition process_all_files ::
  "('g, 'b, 'm) chess_pgn \<Rightarrow> platform \<Rightarrow> json option list \<Rightarrow> py_exception + dict list" where
  "process_all_files lib pf json_files =
     (if json_files = [] then Inr []
      else exn_bind (all_games lib pf json_files) (\<lambda>games.
             if games = [] then Inr []
             else exn_bind (drop_duplicates ''url'' games) (\<lambda>df.
                    sort_values pf ''end_time'' df)))"

section \<open>The perspective projector (\<^verbatim>\<open>perspective_data_generator\<close>)\<close>

text \<open>
  The projector reads the canonical table back with \<^verbatim>\<open>pandas.read_csv\<close>. A cell of
  the frame is a missing value (NaN: an empty field of the file, or one of the texts
  pandas reads as missing, such as \<^verbatim>\<open>nan\<close>), a str or an int. A row of the frame, and
  a row of the output, is a dict of cells.
\<close>

datatype cell = CNaN | CStr string | CInt int

type_synonym series = "(string \<times> cell) list"

definition cell_item :: "series \<Rightarrow> string \<Rightarrow> py_exception + cell" where
  "cell_item row k = (case map_of row k of None \<Rightarrow> Inl KeyError | Some v \<Rightarrow> Inr v)"

definition cell_str :: "cell \<Rightarrow> string" where
  "cell_str c = (case c of CNaN \<Rightarrow> ''nan'' | CStr s \<Rightarrow> s | CInt i \<Rightarrow> str_int i)"

text \<open>\<^verbatim>\<open>==\<close>: NaN is equal to nothing, a str is never equal to an int.\<close>

fun cell_eq :: "cell \<Rightarrow> cell \<Rightarrow> bool" where
  "cell_eq (CStr a) (CStr b) = (a = b)"
| "cell_eq (CInt a) (CInt b) = (a = b)"
| "cell_eq _ _ = False"

definition cell_in :: "cell \<Rightarrow> cell list \<Rightarrow> bool" where
  "cell_in c subjects = list_ex (cell_eq c) subjects"

text \<open>\<^verbatim>\<open>a - b\<close>: NaN with a number is NaN; a str raises TypeError.\<close>

definition cell_sub :: "cell \<Rightarrow> cell \<Rightarrow> py_exception + cell" where
  "cell_sub a b =
     (case a of
        CStr s \<Rightarrow> Inl TypeError
      | CInt x \<Rightarrow> (case b of CStr s \<Rightarrow> Inl TypeError | CInt y \<Rightarrow> Inr (CInt (x - y)) | CNaN \<Rightarrow> Inr CNaN)
      | CNaN \<Rightarrow> (case b of CStr s \<Rightarrow> Inl TypeError | _ \<Rightarrow> Inr CNaN))"

text \<open>\<^verbatim>\<open>a >= k\<close> and \<^verbatim>\<open>a > k\<close> against an int: false on NaN, TypeError on a str.\<close>

definition cell_ge :: "cell \<Rightarrow> int \<Rightarrow> py_exception + bool" where
  "cell_ge c k = (case c of CInt i \<Rightarrow> Inr (i \<ge> k) | CNaN \<Rightarrow> Inr False | CStr s \<Rightarrow> Inl TypeError)"

definition cell_gt :: "cell \<Rightarrow> int \<Rightarrow> py_exception + bool" where
  "cell_gt c k = (case c of CInt i \<Rightarrow> Inr (i > k) | CNaN \<Rightarrow> Inr False | CStr s \<Rightarrow> Inl TypeError)"

text \<open>Lines 84 to 88.\<close>

definition difficulty_bucket :: "cell \<Rightarrow> py_exception + string" where
  "difficulty_bucket rating_diff =
     exn_bind (cell_ge rating_diff 100) (\<lambda>c1.
       if c1 then Inr ''Much Stronger (+100+)''
       else exn_bind (cell_ge rating_diff 25) (\<lambda>c2.
         if c2 then Inr ''Stronger (+25 to +99)''
         else exn_bind (cell_gt rating_diff (- 25)) (\<lambda>c3.
           if c3 then Inr (''Similar ('' @ [CHR 0xB1] @ ''25)'')
           else exn_bind (cell_gt rating_diff (- 100)) (\<lambda>c4.
             if c4 then Inr ''Weaker (-25 to -99)''
             else Inr ''Much Weaker (-100+)''))))"

text \<open>Lines 72 to 78.\<close>

definition result_status_of :: "cell \<Rightarrow> cell \<Rightarrow> string" where
  "result_status_of winner_cell player =
     (let winner = cell_str winner_cell
      in if winner = ''draw'' then ''Draw''
         else if cell_eq (CStr winner) player then ''Win''
         else ''Loss'')"

text \<open>Lines 63 to 106.\<close>

definition generate_row :: "series \<Rightarrow> string \<Rightarrow> py_exception + series" where
  "generate_row row perspective =
     (let is_white = (perspective = ''white'') in
      exn_bind (cell_item row (if is_white then ''white_username'' else ''black_username'')) (\<lambda>player.
      exn_bind (cell_item row (if is_white then ''black_username'' else ''white_username'')) (\<lambda>opponent.
      exn_bind (cell_item row (if is_white then ''white_rating'' else ''black_rating'')) (\<lambda>player_rating.
      exn_bind (cell_item row (if is_white then ''black_rating'' else ''white_rating'')) (\<lambda>opponent_rating.
      exn_bind (cell_item row ''winner'') (\<lambda>winner_cell.
      exn_bind (cell_sub player_rating opponent_rating) (\<lambda>rating_diff.
      exn_bind (difficulty_bucket rating_diff) (\<lambda>difficulty.
      exn_bind (cell_item row ''end_date'') (\<lambda>end_date.
      exn_bind (cell_item row ''end_time'') (\<lambda>end_time.
      exn_bind (cell_item row ''end_datetime'') (\<lambda>end_datetime.
      exn_bind (cell_item row ''game_type'') (\<lambda>gt.
      exn_bind (cell_item row ''opening_name'') (\<lambda>opening_name.
      exn_bind (cell_item row ''move_count'') (\<lambda>move_count.
      exn_bind (cell_item row ''url'') (\<lambda>url.
        Inr [(''game_date'', end_date),
             (''game_time'', end_time),
             (''end_datetime'', end_datetime),
             (''player_name'', player),
             (''opponent_name'', opponent),
             (''player_rating'', player_rating),
             (''opponent_rating'', opponent_rating),
             (''rating_diff'', rating_diff),
             (''difficulty_category'', CStr difficulty),
             (''result_status'', CStr (result_status_of winner_cell player)),
             (''game_type'', gt),
             (''opening_name'', opening_name),
             (''move_count'', move_count),
             (''player_color'', CStr perspective),
             (''game_url'', url)])))))))))))))))"

text \<open>The body of the loop of lines 36 to 43, for one row of the frame.\<close>

definition rows_of_game :: "cell list \<Rightarrow> series \<Rightarrow> py_exception + series list" where
  "rows_of_game subjects row =
     exn_bind (cell_item row ''white_username'') (\<lambda>white_username.
     exn_bind (if cell_in white_username subjects
               then exn_bind (generate_row row ''white'') (\<lambda>r. Inr [r])
               else Inr []) (\<lambda>as_white.
     exn_bind (cell_item row ''black_username'') (\<lambda>black_username.
     exn_bind (if cell_in black_username subjects
               then exn_bind (generate_row row ''black'') (\<lambda>r. Inr [r])
               else Inr []) (\<lambda>as_black.
       Inr (as_white @ as_black)))))"

fun perspective_rows :: "cell list \<Rightarrow> series list \<Rightarrow> py_exception + series list" where
  "perspective_rows subjects [] = Inr []"
| "perspective_rows subjects (row # df) =
     (case rows_of_game subjects row of
        Inl e \<Rightarrow> Inl e
      | Inr rs \<Rightarrow>
          (case perspective_rows subjects df of
             Inl e \<Rightarrow> Inl e
           | Inr others \<Rightarrow> Inr (rs @ others)))"

text \<open>Lines 52 to 54: the three flag columns, as integers.\<close>

definition flag :: "series \<Rightarrow> string \<Rightarrow> cell" where
  "flag r status = CInt (if map_of r ''result_status'' = Some (CStr status) then 1 else 0)"

definition bi_flags :: "series \<Rightarrow> series" where
  "bi_flags r =
     AList.update ''is_draw'' (flag r ''Draw'')
       (AList.update ''is_loss'' (flag r ''Loss'')
         (AList.update ''is_win'' (flag r ''Win'') r))"

text \<open>
  \<^verbatim>\<open>create_perspective_data\<close>. The input is \<open>None\<close> when the file does not exist, else
  the frame read from it. The frequency count that chooses the default subjects and
  the sort of the output are pandas' and are parameters. The result is \<open>None\<close> for
  \<^verbatim>\<open>return False\<close>, else the frame that is written.
\<close>

record pandas_frame =
  top_players :: "series list \<Rightarrow> cell list"
  sort_rows :: "string \<Rightarrow> series list \<Rightarrow> py_exception + series list"

definition create_perspective_data ::
  "pandas_frame \<Rightarrow> series list option \<Rightarrow> cell list option \<Rightarrow> py_exception + series list option" where
  "create_perspective_data pd input subjects =
     (case input of
        None \<Rightarrow> Inr None
      | Some df \<Rightarrow>
          (let subjects = (case subjects of None \<Rightarrow> top_players pd df | Some given \<Rightarrow> given)
           in exn_bind (perspective_rows subjects df) (\<lambda>rows.
                if rows = [] then Inr None
                else exn_bind (sort_rows pd ''game_time'' (map bi_flags rows)) (\<lambda>sorted_rows.
                       Inr (Some sorted_rows)))))"

section \<open>Stand-ins for the parameters\<close>

text \<open>
  Concrete values for the library parameters, on which the functions can be run.
  \<open>pgn_double hdrs n bad\<close> reads no game from the empty text and from any other text
  a game with the headers \<open>hdrs\<close> and \<open>n\<close> moves, whose starting board raises
  ValueError when \<open>bad\<close> holds (as python-chess does for headers that name an unknown
  variant or an invalid position).
\<close>

definition pgn_double :: "(string \<times> string) list \<Rightarrow> nat \<Rightarrow> bool \<Rightarrow> (unit, unit, unit) chess_pgn" where
  "pgn_double hdrs n bad =
     \<lparr> read_game = (\<lambda>s. if s = [] then Inr None else Inr (Some ())),
       headers_get = (\<lambda>g k. map_of hdrs k),
       board = (\<lambda>g. if bad then Inl ValueError else Inr ()),
       mainline_moves = (\<lambda>g. replicate n ()),
       push = (\<lambda>b m. Inr ()) \<rparr>"

text \<open>A clock in UTC that knows the first day of 1970 only.\<close>

definition two_digits :: "int \<Rightarrow> string" where
  "two_digits i = (if i < 10 then ''0'' @ str_int i else str_int i)"

definition utc_first_day :: "json \<Rightarrow> py_exception + (string \<times> string \<times> int \<times> string)" where
  "utc_first_day v =
     (case as_number v of
        None \<Rightarrow> Inl TypeError
      | Some t \<Rightarrow>
          if 0 \<le> t \<and> t < 86400
          then Inr (''1970-01-01'',
                    ''1970-01-01 '' @ two_digits (t div 3600) @ '':'' @
                      two_digits (t mod 3600 div 60) @ '':'' @ two_digits (t mod 60),
                    1970, ''1970-01'')
          else Inl ValueError)"

text \<open>Sorting a frame by a column of integers: what a sort has to deliver, a sort
  that keeps the order of equal keys, and one that reverses it.\<close>

definition int_column :: "string \<Rightarrow> dict list \<Rightarrow> bool" where
  "int_column col df = list_all (\<lambda>row. case column col row of JInt i \<Rightarrow> True | _ \<Rightarrow> False) df"

definition int_key :: "string \<Rightarrow> dict \<Rightarrow> int" where
  "int_key col row = (case column col row of JInt i \<Rightarrow> i | _ \<Rightarrow> 0)"


definition stable_sort :: "string \<Rightarrow> dict list \<Rightarrow> py_exception + dict list" where
  "stable_sort col df =
     (if int_column col df then Inr (sort_key (int_key col) df) else Inl TypeError)"


definition platform_double :: platform where
  "platform_double = \<lparr> fromtimestamp = utc_first_day, sort_values = stable_sort \<rparr>"

text \<open>What every sort of a frame delivers: the rows it was given. And a platform
  whose sort reverses the order of equal keys.\<close>

definition returns_rows :: "(string \<Rightarrow> dict list \<Rightarrow> py_exception + dict list) \<Rightarrow> bool" where
  "returns_rows srt = (\<forall>col df out. srt col df = Inr out \<longrightarrow> mset out = mset df)"


text \<open>For the projector: what the sort of a frame has to deliver (the rows it was given),
  a sort on a column of integers that keeps the order of equal keys, and a count of
  the five most frequent usernames, in the order of their first occurrence.\<close>

definition permutes_rows :: "(string \<Rightarrow> series list \<Rightarrow> py_exception + series list) \<Rightarrow> bool" where
  "permutes_rows srt = (\<forall>col rows out. srt col rows = Inr out \<longrightarrow> mset out = mset rows)"

definition cell_int_column :: "string \<Rightarrow> series list \<Rightarrow> bool" where
  "cell_int_column col rows =
     list_all (\<lambda>r. case map_of r col of Some (CInt i) \<Rightarrow> True | _ \<Rightarrow> False) rows"

definition cell_key :: "string \<Rightarrow> series \<Rightarrow> int" where
  "cell_key col r = (case map_of r col of Some (CInt i) \<Rightarrow> i | _ \<Rightarrow> 0)"

definition stable_sort_rows :: "string \<Rightarrow> series list \<Rightarrow> py_exception + series list" where
  "stable_sort_rows col rows =
     (if cell_int_column col rows then Inr (sort_key (cell_key col) rows) else Inl TypeError)"

definition names_column :: "string \<Rightarrow> series list \<Rightarrow> cell list" where
  "names_column col df =
     filter (\<lambda>c. c \<noteq> CNaN) (map (\<lambda>r. case map_of r col of None \<Rightarrow> CNaN | Some c \<Rightarrow> c) df)"

definition five_most_frequent :: "series list \<Rightarrow> cell list" where
  "five_most_frequent df =
     (let names = names_column ''white_username'' df @ names_column ''black_username'' df
      in take 5 (sort_key (\<lambda>c. - int (count_list names c)) (rev (remdups (rev names)))))"

definition frame_double :: pandas_frame where
  "frame_double = \<lparr> top_players = five_most_frequent, sort_rows = stable_sort_rows \<rparr>"

section \<open>Sample records\<close>

text \<open>A record without the key \<^verbatim>\<open>end_time\<close>.\<close>

definition no_end_time_game :: json where
  "no_end_time_game = JObj [
     (''url'', JStr ''https://www.chess.com/game/live/1''),
     (''pgn'', JStr ''1. e4 e5''),
     (''time_control'', JStr ''600''),
     (''white'', JObj [(''rating'', JInt 1500), (''result'', JStr ''win''), (''username'', JStr ''A'')]),
     (''black'', JObj [(''rating'', JInt 1400), (''result'', JStr ''checkmated''), (''username'', JStr ''B'')])]"

text \<open>A record whose notation text is empty and whose two outcome tokens name neither a
  win nor a draw.\<close>

definition unresolved_game :: json where
  "unresolved_game = JObj [
     (''url'', JStr ''https://www.chess.com/game/live/2''),
     (''pgn'', JStr []),
     (''time_control'', JStr ''600''),
     (''end_time'', JInt 3600),
     (''white'', JObj [(''rating'', JInt 1500), (''result'', JStr ''resigned''), (''username'', JStr ''A'')]),
     (''black'', JObj [(''rating'', JInt 1400), (''result'', JStr ''timeout''), (''username'', JStr ''B'')])]"

text \<open>A record in which both sides are marked as winners, and the row it gives on the
  stand-ins.\<close>

definition both_win_game :: json where
  "both_win_game = JObj [
     (''url'', JStr ''https://www.chess.com/game/live/3''),
     (''pgn'', JStr ''1. e4 e5 1-0''),
     (''time_control'', JStr ''180+2''),
     (''end_time'', JInt 3661),
     (''white'', JObj [(''rating'', JInt 1500), (''result'', JStr ''Win''), (''username'', JStr ''A'')]),
     (''black'', JObj [(''rating'', JInt 1400), (''result'', JStr ''win''), (''username'', JStr ''B'')])]"

definition both_win_row :: dict where
  "both_win_row =
    [(''white_username'', JStr ''A''), (''black_username'', JStr ''B''),
     (''white_rating'', JInt 1500), (''black_rating'', JInt 1400),
     (''result'', JStr ''1-0''), (''end_time'', JInt 3661),
     (''time_control'', JStr ''180+2''), (''url'', JStr ''https://www.chess.com/game/live/3''),
     (''pgn'', JStr ''1. e4 e5 1-0''), (''end_date'', JStr ''1970-01-01''),
     (''end_datetime'', JStr ''1970-01-01 01:01:01''), (''year'', JInt 1970),
     (''month'', JStr ''1970-01''), (''rating_diff'', JInt 100),
     (''game_type'', JStr ''bullet''), (''move_count'', JInt 2),
     (''eco_code'', JNull), (''opening_name'', JNull),
     (''pgn_result'', JStr ''1-0''), (''winner'', JStr ''A''),
     (''result_category'', JStr ''win''), (''white_win'', JBool True),
     (''black_win'', JBool False), (''is_draw'', JBool False)]"





text \<open>A row of the frame read back from the canonical table, and its two perspective
  rows.\<close>

definition frame_row :: series where
  "frame_row =
    [(''end_date'', CStr ''1970-01-01''), (''white_username'', CStr ''A''),
     (''black_username'', CStr ''B''), (''white_rating'', CInt 1500),
     (''black_rating'', CInt 1400), (''result'', CStr ''1-0''), (''winner'', CStr ''A''),
     (''result_category'', CStr ''checkmated''), (''game_type'', CStr ''bullet''),
     (''opening_name'', CNaN), (''eco_code'', CNaN), (''move_count'', CInt 2),
     (''white_win'', CStr ''True''), (''black_win'', CStr ''False''),
     (''is_draw'', CStr ''False''), (''rating_diff'', CInt 100), (''year'', CInt 1970),
     (''month'', CStr ''1970-01''), (''time_control'', CStr ''180+2''),
     (''end_datetime'', CStr ''1970-01-01 01:01:01''), (''end_time'', CInt 3661),
     (''url'', CStr ''https://www.chess.com/game/live/3'')]"

definition as_white :: series where
  "as_white =
    [(''game_date'', CStr ''1970-01-01''), (''game_time'', CInt 3661),
     (''end_datetime'', CStr ''1970-01-01 01:01:01''), (''player_name'', CStr ''A''),
     (''opponent_name'', CStr ''B''), (''player_rating'', CInt 1500),
     (''opponent_rating'', CInt 1400), (''rating_diff'', CInt 100),
     (''difficulty_category'', CStr ''Much Stronger (+100+)''),
     (''result_status'', CStr ''Win''), (''game_type'', CStr ''bullet''),
     (''opening_name'', CNaN), (''move_count'', CInt 2),
     (''player_color'', CStr ''white''),
     (''game_url'', CStr ''https://www.chess.com/game/live/3'')]"

definition as_black :: series where
  "as_black =
    [(''game_date'', CStr ''1970-01-01''), (''game_time'', CInt 3661),
     (''end_datetime'', CStr ''1970-01-01 01:01:01''), (''player_name'', CStr ''B''),
     (''opponent_name'', CStr ''A''), (''player_rating'', CInt 1400),
     (''opponent_rating'', CInt 1500), (''rating_diff'', CInt (- 100)),
     (''difficulty_category'', CStr ''Much Weaker (-100+)''),
     (''result_status'', CStr ''Loss''), (''game_type'', CStr ''bullet''),
     (''opening_name'', CNaN), (''move_count'', CInt 2),
     (''player_color'', CStr ''black''),
     (''game_url'', CStr ''https://www.chess.com/game/live/3'')]"

text \<open>A row of the frame whose winner was written as the empty string and is read back
  as a missing value, and its perspective row for white with the three flags.\<close>

definition unresolved_frame_row :: series where
  "unresolved_frame_row =
    [(''end_date'', CStr ''1970-01-01''), (''white_username'', CStr ''A''),
     (''black_username'', CStr ''B''), (''white_rating'', CInt 1500),
     (''black_rating'', CInt 1400), (''result'', CStr ''*''), (''winner'', CNaN),
     (''result_category'', CStr ''resigned/timeout''), (''game_type'', CStr ''bullet''),
     (''opening_name'', CNaN), (''eco_code'', CNaN), (''move_count'', CInt 2),
     (''white_win'', CStr ''False''), (''black_win'', CStr ''False''),
     (''is_draw'', CStr ''False''), (''rating_diff'', CInt 100), (''year'', CInt 1970),
     (''month'', CStr ''1970-01''), (''time_control'', CStr ''180+2''),
     (''end_datetime'', CStr ''1970-01-01 00:00:10''), (''end_time'', CInt 10),
     (''url'', CStr ''https://www.chess.com/game/live/5'')]"

definition unresolved_as_white :: series where
  "unresolved_as_white =
    [(''game_date'', CStr ''1970-01-01''), (''game_time'', CInt 10),
     (''end_datetime'', CStr ''1970-01-01 00:00:10''), (''player_name'', CStr ''A''),
     (''opponent_name'', CStr ''B''), (''player_rating'', CInt 1500),
     (''opponent_rating'', CInt 1400), (''rating_diff'', CInt 100),
     (''difficulty_category'', CStr ''Much Stronger (+100+)''),
     (''result_status'', CStr ''Loss''), (''game_type'', CStr ''bullet''),
     (''opening_name'', CNaN), (''move_count'', CInt 2),
     (''player_color'', CStr ''white''),
     (''game_url'', CStr ''https://www.chess.com/game/live/5''),
     (''is_win'', CInt 0), (''is_loss'', CInt 1), (''is_draw'', CInt 0)]"

text \<open>A notation text whose headers give an opening code and a result and name a
  variant the library does not know, and the library's behaviour on it: the game is
  read, its starting board raises.\<close>

definition unknown_variant_pgn :: string where
  "unknown_variant_pgn =
     ''[ECO '' @ [CHR 0x22] @ ''B20'' @ [CHR 0x22] @ '']'' @ [CHR 0x0A] @
     ''[Result '' @ [CHR 0x22] @ ''1-0'' @ [CHR 0x22] @ '']'' @ [CHR 0x0A] @
     ''[Variant '' @ [CHR 0x22] @ ''nonsense'' @ [CHR 0x22] @ '']'' @ [CHR 0x0A, CHR 0x0A] @
     ''1. e4 e5 1-0''"

definition unknown_variant_lib :: "(unit, unit, unit) chess_pgn" where
  "unknown_variant_lib =
     pgn_double [(''ECO'', ''B20''), (''Result'', ''1-0''), (''Variant'', ''nonsense'')] 2 True"

text \<open>Two archives with four games of the same players; the first game of the second
  archive has the url of the first game of the first. \<open>sample_row\<close> is the row that a
  sample game gives on the stand-ins.\<close>

definition sample_lib :: "(unit, unit, unit) chess_pgn" where
  "sample_lib = pgn_double [(''Result'', ''1-0'')] 2 False"

definition sample_game :: "string \<Rightarrow> int \<Rightarrow> json" where
  "sample_game url end_time = JObj [
     (''url'', JStr url),
     (''pgn'', JStr ''1. e4 e5 1-0''),
     (''time_control'', JStr ''600''),
     (''end_time'', JInt end_time),
     (''white'', JObj [(''rating'', JInt 1500), (''result'', JStr ''win''), (''username'', JStr ''A'')]),
     (''black'', JObj [(''rating'', JInt 1400), (''result'', JStr ''resigned''), (''username'', JStr ''B'')])]"

definition sample_row :: "string \<Rightarrow> int \<Rightarrow> dict" where
  "sample_row url end_time =
    [(''white_username'', JStr ''A''), (''black_username'', JStr ''B''),
     (''white_rating'', JInt 1500), (''black_rating'', JInt 1400),
     (''result'', JStr ''1-0''), (''end_time'', JInt end_time),
     (''time_control'', JStr ''600''), (''url'', JStr url),
     (''pgn'', JStr ''1. e4 e5 1-0''), (''end_date'', JStr ''1970-01-01''),
     (''end_datetime'', JStr (''1970-01-01 '' @ two_digits (end_time div 3600) @ '':'' @
         two_digits (end_time mod 3600 div 60) @ '':'' @ two_digits (end_time mod 60))),
     (''year'', JInt 1970),
     (''month'', JStr ''1970-01''), (''rating_diff'', JInt 100),
     (''game_type'', JStr ''blitz''), (''move_count'', JInt 2),
     (''eco_code'', JNull), (''opening_name'', JNull),
     (''pgn_result'', JStr ''1-0''), (''winner'', JStr ''A''),
     (''result_category'', JStr ''resigned''), (''white_win'', JBool True),
     (''black_win'', JBool False), (''is_draw'', JBool False)]"

definition sample_files :: "json option list" where
  "sample_files =
     [Some (JObj [(''games'', JArr [sample_game ''u1'' 300, sample_game ''u2'' 100])]),
      Some (JObj [(''games'', JArr [sample_game ''u1'' 200, sample_game ''u3'' 100])])]"

definition sample_games :: "dict list" where
  "sample_games =
     [sample_row ''u1'' 300, sample_row ''u2'' 100, sample_row ''u1'' 200, sample_row ''u3'' 100]"

text \<open>On values that can be hashed \<^verbatim>\<open>==\<close> is equality once a bool is read as 0 or 1.\<close>

definition num_norm :: "json \<Rightarrow> json" where
  "num_norm v = (case v of JBool b \<Rightarrow> JInt (if b then 1 else 0) | _ \<Rightarrow> v)"

section \<open>Facts about the Python operators\<close>



section \<open>The stages of the extraction\<close>

lemma map_of_update:
  "map_of (AList.update k v al) k' = (if k' = k then Some v else map_of al k')"
  by (simp add: update_conv')

lemma date_parts_keeps:
  assumes "date_parts pf e = Inr e'"
    and "k \<notin> {''month'', ''year'', ''end_datetime'', ''end_date''}"
  shows "map_of e' k = map_of e k"
  using assms
  by (auto simp: date_parts_def no_date_def exn_bind_def map_of_update
      split: sum.splits if_splits prod.splits)

lemma rating_difference_keeps:
  assumes "rating_difference e = Inr e'" and "k \<noteq> ''rating_diff''"
  shows "map_of e' k = map_of e k"
  using assms
  by (auto simp: rating_difference_def exn_bind_def map_of_update split: sum.splits)

lemma game_type_keeps:
  assumes "game_type e = Inr e'" and "k \<noteq> ''game_type''"
  shows "map_of e' k = map_of e k"
  using assms
  by (auto simp: game_type_def exn_bind_def map_of_update split: sum.splits)

lemma pgn_information_keeps:
  assumes "pgn_information lib e = Inr e'"
    and "k \<notin> {''move_count'', ''eco_code'', ''opening_name'', ''pgn_result''}"
  shows "map_of e' k = map_of e k"
  using assms
  by (auto simp: pgn_information_def exn_bind_def map_of_update Let_def
      split: sum.splits if_splits)

lemma boolean_flags_keeps:
  assumes "boolean_flags e = Inr e'"
    and "k \<notin> {''white_win'', ''black_win'', ''is_draw''}"
  shows "map_of e' k = map_of e k"
  using assms
  by (auto simp: boolean_flags_def exn_bind_def map_of_update split: sum.splits)

lemma extract_game_data_stages:
  assumes "extract_game_data lib pf game = Some r"
  obtains e0 e1 e2 e3 e4 e5 where
    "validate_chess_data game = Inr True"
    "basic_information game = Inr e0"
    "date_parts pf e0 = Inr e1"
    "rating_difference e1 = Inr e2"
    "game_type e2 = Inr e3"
    "pgn_information lib e3 = Inr e4"
    "winner_and_result game e4 = Inr e5"
    "boolean_flags e5 = Inr r"
  using assms
  by (auto simp: extract_game_data_def extract_game_data_body_def exn_bind_def
      split: sum.splits if_splits)

lemma basic_information_usernames:
  assumes "basic_information game = Inr e0"
  shows "\<exists>wu bu. player_field game ''white'' ''username'' (JStr []) = Inr wu \<and>
                 player_field game ''black'' ''username'' (JStr []) = Inr bu \<and>
                 map_of e0 ''white_username'' = Some wu \<and>
                 map_of e0 ''black_username'' = Some bu"
  using assms
  by (auto simp: basic_information_def exn_bind_def split: sum.splits)

lemma usernames_reach_ladder:
  assumes "basic_information game = Inr e0"
    "date_parts pf e0 = Inr e1"
    "rating_difference e1 = Inr e2"
    "game_type e2 = Inr e3"
    "pgn_information lib e3 = Inr e4"
  shows "map_of e4 ''white_username'' = map_of e0 ''white_username''"
    and "map_of e4 ''black_username'' = map_of e0 ''black_username''"
  using assms
  by (simp_all add: date_parts_keeps rating_difference_keeps game_type_keeps pgn_information_keeps)

section \<open>The outcome ladder\<close>

lemma winner_and_result_ladder:
  assumes "winner_and_result game e = Inr e'"
    and "map_of e ''white_username'' = Some wu"
    and "map_of e ''black_username'' = Some bu"
  shows "\<exists>wr br.
     player_result game ''white'' = Inr wr \<and> player_result game ''black'' = Inr br \<and>
     (if wr = ''win''
      then map_of e' ''winner'' = Some wu \<and> map_of e' ''result'' = Some (JStr ''1-0'') \<and>
           map_of e' ''result_category'' = Some (JStr br)
      else if br = ''win''
      then map_of e' ''winner'' = Some bu \<and> map_of e' ''result'' = Some (JStr ''0-1'') \<and>
           map_of e' ''result_category'' = Some (JStr wr)
      else if wr \<in> set draw_tokens \<or> br \<in> set draw_tokens
      then map_of e' ''winner'' = Some (JStr ''draw'') \<and>
           map_of e' ''result'' = Some (JStr ''1/2-1/2'') \<and>
           map_of e' ''result_category'' = Some (JStr wr)
      else True)"
proof -
  from assms(1) obtain wr br where
    wr: "player_result game ''white'' = Inr wr" and br: "player_result game ''black'' = Inr br"
    by (auto simp: winner_and_result_def exn_bind_def split: sum.splits)
  from assms(2,3) have items: "dict_item e ''white_username'' = Inr wu"
    "dict_item e ''black_username'' = Inr bu"
    by (simp_all add: dict_item_def)
  show ?thesis
  proof (cases "wr = ''win''")
    case True
    with assms(1) wr br items have "e' = AList.update ''result_category'' (JStr br)
                    (AList.update ''result'' (JStr ''1-0'')
                      (AList.update ''winner'' wu e))"
      by (simp add: winner_and_result_def exn_bind_def)
    with True wr br show ?thesis by (simp add: map_of_update)
  next
    case nw: False
    show ?thesis
    proof (cases "br = ''win''")
      case True
      with nw assms(1) wr br items have "e' = AList.update ''result_category'' (JStr wr)
                    (AList.update ''result'' (JStr ''0-1'')
                      (AList.update ''winner'' bu e))"
        by (simp add: winner_and_result_def exn_bind_def)
      with True nw wr br show ?thesis by (simp add: map_of_update)
    next
      case nb: False
      show ?thesis
      proof (cases "wr \<in> set draw_tokens \<or> br \<in> set draw_tokens")
        case True
        with nw nb assms(1) wr br have "e' = AList.update ''result_category'' (JStr wr)
                  (AList.update ''result'' (JStr ''1/2-1/2'')
                    (AList.update ''winner'' (JStr ''draw'') e))"
          by (auto simp add: winner_and_result_def exn_bind_def)
        with True nw nb wr br show ?thesis by (simp add: map_of_update)
      next
        case False
        with nw nb wr br show ?thesis by simp
      qed
    qed
  qed
qed

text \<open>
  Claim C1. Whenever a row is emitted, the winner, the result and the result category
  follow the ladder on the two lower-cased outcome tokens, in this order: white's token
  is \<^verbatim>\<open>win\<close> (white's username, \<^verbatim>\<open>1-0\<close>, black's token); else black's token is \<^verbatim>\<open>win\<close>
  (black's username, \<^verbatim>\<open>0-1\<close>, white's token); else one of the tokens is a draw token
  (\<^verbatim>\<open>draw\<close>, \<^verbatim>\<open>1/2-1/2\<close>, white's token). When both tokens are \<^verbatim>\<open>win\<close> the first rule
  applies and white is the winner.
\<close>

theorem outcome_ladder_priority:
  assumes "extract_game_data lib pf game = Some r"
  shows "\<exists>wu bu wr br.
     player_field game ''white'' ''username'' (JStr []) = Inr wu \<and>
     player_field game ''black'' ''username'' (JStr []) = Inr bu \<and>
     player_result game ''white'' = Inr wr \<and> player_result game ''black'' = Inr br \<and>
     (if wr = ''win''
      then map_of r ''winner'' = Some wu \<and> map_of r ''result'' = Some (JStr ''1-0'') \<and>
           map_of r ''result_category'' = Some (JStr br)
      else if br = ''win''
      then map_of r ''winner'' = Some bu \<and> map_of r ''result'' = Some (JStr ''0-1'') \<and>
           map_of r ''result_category'' = Some (JStr wr)
      else if wr \<in> set draw_tokens \<or> br \<in> set draw_tokens
      then map_of r ''winner'' = Some (JStr ''draw'') \<and>
           map_of r ''result'' = Some (JStr ''1/2-1/2'') \<and>
           map_of r ''result_category'' = Some (JStr wr)
      else True)"
proof -
  from assms obtain e0 e1 e2 e3 e4 e5 where st:
    "basic_information game = Inr e0"
    "date_parts pf e0 = Inr e1"
    "rating_difference e1 = Inr e2"
    "game_type e2 = Inr e3"
    "pgn_information lib e3 = Inr e4"
    "winner_and_result game e4 = Inr e5"
    "boolean_flags e5 = Inr r"
    by (rule extract_game_data_stages)
  from st(1) obtain wu bu where u:
    "player_field game ''white'' ''username'' (JStr []) = Inr wu"
    "player_field game ''black'' ''username'' (JStr []) = Inr bu"
    "map_of e0 ''white_username'' = Some wu"
    "map_of e0 ''black_username'' = Some bu"
    using basic_information_usernames by blast
  from st(1-5) u(3,4) have u4: "map_of e4 ''white_username'' = Some wu"
    "map_of e4 ''black_username'' = Some bu"
    by (simp_all add: usernames_reach_ladder)
  have keep: "map_of r ''winner'' = map_of e5 ''winner''"
    "map_of r ''result'' = map_of e5 ''result''"
    "map_of r ''result_category'' = map_of e5 ''result_category''"
    using st(7) by (simp_all add: boolean_flags_keeps)
  from winner_and_result_ladder[OF st(6) u4] u(1,2) keep show ?thesis
    by metis
qed

lemma both_win_extracted:
  "extract_game_data (pgn_double [(''Result'', ''1-0'')] 2 False) platform_double both_win_game
     = Some both_win_row"
  by code_simp

theorem outcome_ladder_priority_witness:
  "extract_game_data (pgn_double [(''Result'', ''1-0'')] 2 False) platform_double both_win_game
     = Some both_win_row \<and>
   player_result both_win_game ''white'' = Inr ''win'' \<and>
   player_result both_win_game ''black'' = Inr ''win'' \<and>
   map_of both_win_row ''winner'' = Some (JStr ''A'') \<and>
   map_of both_win_row ''result'' = Some (JStr ''1-0'') \<and>
   map_of both_win_row ''result_category'' = Some (JStr ''win'')"
proof -
  have pr: "player_result both_win_game ''white'' = Inr ''win''"
    "player_result both_win_game ''black'' = Inr ''win''"
    "player_field both_win_game ''white'' ''username'' (JStr []) = Inr (JStr ''A'')"
    by code_simp+
  from outcome_ladder_priority[OF both_win_extracted] pr
  have "map_of both_win_row ''winner'' = Some (JStr ''A'') \<and>
   map_of both_win_row ''result'' = Some (JStr ''1-0'') \<and>
   map_of both_win_row ''result_category'' = Some (JStr ''win'')"
    by auto
  with both_win_extracted pr show ?thesis by simp
qed

section \<open>Validation\<close>

lemma has_fields_dict:
  "has_fields fs (JObj g) = Inr (list_all (\<lambda>f. f \<in> fst ` set g) fs)"
  by (induction fs) (auto simp: py_in_def hashable_def)

text \<open>
  Claim C4. Validation of a record looks at nothing but the presence of the four keys
  \<^verbatim>\<open>white\<close>, \<^verbatim>\<open>black\<close>, \<^verbatim>\<open>end_time\<close> and \<^verbatim>\<open>pgn\<close>, and a record that lacks one of them
  gives no row.
\<close>

theorem missing_required_key_rejected:
  "validate_chess_data (JObj g) = Inr (list_all (\<lambda>f. f \<in> fst ` set g) required_fields) \<and>
   (\<not> list_all (\<lambda>f. f \<in> fst ` set g) required_fields \<longrightarrow>
      extract_game_data lib pf (JObj g) = None)"
  by (simp add: validate_chess_data_def has_fields_dict extract_game_data_def
      extract_game_data_body_def exn_bind_def)

theorem missing_required_key_rejected_witness:
  "validate_chess_data no_end_time_game = Inr False \<and>
   extract_game_data (pgn_double [] 2 False) platform_double no_end_time_game = None"
  using missing_required_key_rejected
    [of "[(''url'', JStr ''https://www.chess.com/game/live/1''),
     (''pgn'', JStr ''1. e4 e5''),
     (''time_control'', JStr ''600''),
     (''white'', JObj [(''rating'', JInt 1500), (''result'', JStr ''win''), (''username'', JStr ''A'')]),
     (''black'', JObj [(''rating'', JInt 1400), (''result'', JStr ''checkmated''), (''username'', JStr ''B'')])]"
     "pgn_double [] 2 False" platform_double]
  by (simp add: no_end_time_game_def required_fields_def)

section \<open>The unresolved outcome\<close>

text \<open>The last rule of the ladder, when neither token is \<^verbatim>\<open>win\<close> or a draw token: with a
  declared result the row takes it; with none the membership test raises.\<close>

lemma last_rule_of_the_ladder:
  assumes "player_result game ''white'' = Inr wr" and "player_result game ''black'' = Inr br"
    and "wr \<noteq> ''win''" and "br \<noteq> ''win''"
    and "wr \<notin> set draw_tokens" and "br \<notin> set draw_tokens"
  shows "map_of e ''pgn_result'' = Some JNull \<Longrightarrow> winner_and_result game e = Inl TypeError"
    and "map_of e ''pgn_result'' = Some (JStr s) \<Longrightarrow>
         winner_and_result game e =
           Inr (AList.update ''result_category'' (JStr (wr @ ''/'' @ br))
                 (AList.update ''winner'' (JStr (if is_substring ''1/2-1/2'' s then ''draw'' else []))
                   (AList.update ''result'' (JStr s) e)))"
  using assms
  by (simp_all add: winner_and_result_def exn_bind_def dict_get_def dict_item_def
      map_of_update py_in_def Let_def)

text \<open>
  Claim C2. On a record that reaches the last rule of the ladder the lookup
  \<^verbatim>\<open>extracted.get('pgn_result', '1/2-1/2')\<close> finds the key, which the notation step always
  sets, so the default is never taken; with no declared result the value is \<^verbatim>\<open>None\<close>,
  the test \<^verbatim>\<open>'1/2-1/2' in None\<close> raises TypeError and the record is dropped, on every
  library and every clock.
\<close>

theorem unresolved_outcome_without_result_rejected:
  "extract_game_data lib pf unresolved_game = None"
  unfolding unresolved_game_def
  by (simp add: extract_game_data_def extract_game_data_body_def exn_bind_def
      validate_chess_data_def required_fields_def py_in_def hashable_def
      basic_information_def player_field_def py_getitem_def dict_item_def attr_get_def
      dict_get_def date_parts_def no_date_def py_truthy_def rating_difference_def py_sub_def
      as_number_def game_type_def pgn_information_def winner_and_result_def player_result_def
      py_str_def py_lower_def lower_char_def draw_tokens_def
      split: sum.splits prod.splits)

section \<open>The outcome flags\<close>









section \<open>The perspective rows\<close>

lemma generate_row_cases:
  assumes "generate_row row perspective = Inr out"
  obtains player opponent player_rating opponent_rating winner_cell rating_diff difficulty
    end_date end_time end_datetime gt opening_name move_count url
  where
    "cell_item row (if perspective = ''white'' then ''white_username'' else ''black_username'') = Inr player"
    "cell_item row (if perspective = ''white'' then ''black_username'' else ''white_username'') = Inr opponent"
    "cell_item row (if perspective = ''white'' then ''white_rating'' else ''black_rating'') = Inr player_rating"
    "cell_item row (if perspective = ''white'' then ''black_rating'' else ''white_rating'') = Inr opponent_rating"
    "cell_item row ''winner'' = Inr winner_cell"
    "cell_sub player_rating opponent_rating = Inr rating_diff"
    "difficulty_bucket rating_diff = Inr difficulty"
    "out = [(''game_date'', end_date),
             (''game_time'', end_time),
             (''end_datetime'', end_datetime),
             (''player_name'', player),
             (''opponent_name'', opponent),
             (''player_rating'', player_rating),
             (''opponent_rating'', opponent_rating),
             (''rating_diff'', rating_diff),
             (''difficulty_category'', CStr difficulty),
             (''result_status'', CStr (result_status_of winner_cell player)),
             (''game_type'', gt),
             (''opening_name'', opening_name),
             (''move_count'', move_count),
             (''player_color'', CStr perspective),
             (''game_url'', url)]"
proof -
  from assms obtain player where 1:
    "cell_item row (if perspective = ''white'' then ''white_username'' else ''black_username'') = Inr player"
    by (cases "cell_item row (if perspective = ''white'' then ''white_username'' else ''black_username'')")
      (simp_all add: generate_row_def exn_bind_def)
  from assms 1 obtain opponent where 2:
    "cell_item row (if perspective = ''white'' then ''black_username'' else ''white_username'') = Inr opponent"
    by (cases "cell_item row (if perspective = ''white'' then ''black_username'' else ''white_username'')")
      (simp_all add: generate_row_def exn_bind_def)
  from assms 1 2 obtain player_rating where 3:
    "cell_item row (if perspective = ''white'' then ''white_rating'' else ''black_rating'') = Inr player_rating"
    by (cases "cell_item row (if perspective = ''white'' then ''white_rating'' else ''black_rating'')")
      (simp_all add: generate_row_def exn_bind_def)
  from assms 1 2 3 obtain opponent_rating where 4:
    "cell_item row (if perspective = ''white'' then ''black_rating'' else ''white_rating'') = Inr opponent_rating"
    by (cases "cell_item row (if perspective = ''white'' then ''black_rating'' else ''white_rating'')")
      (simp_all add: generate_row_def exn_bind_def)
  from assms 1 2 3 4 obtain winner_cell where 5: "cell_item row ''winner'' = Inr winner_cell"
    by (cases "cell_item row ''winner''") (simp_all add: generate_row_def exn_bind_def)
  from assms 1 2 3 4 5 obtain rating_diff where 6:
    "cell_sub player_rating opponent_rating = Inr rating_diff"
    by (cases "cell_sub player_rating opponent_rating") (simp_all add: generate_row_def exn_bind_def)
  from assms 1 2 3 4 5 6 obtain difficulty where 7:
    "difficulty_bucket rating_diff = Inr difficulty"
    by (cases "difficulty_bucket rating_diff") (simp_all add: generate_row_def exn_bind_def)
  from assms 1 2 3 4 5 6 7 have "\<exists>end_date end_time end_datetime gt opening_name move_count url.
     out = [(''game_date'', end_date),
             (''game_time'', end_time),
             (''end_datetime'', end_datetime),
             (''player_name'', player),
             (''opponent_name'', opponent),
             (''player_rating'', player_rating),
             (''opponent_rating'', opponent_rating),
             (''rating_diff'', rating_diff),
             (''difficulty_category'', CStr difficulty),
             (''result_status'', CStr (result_status_of winner_cell player)),
             (''game_type'', gt),
             (''opening_name'', opening_name),
             (''move_count'', move_count),
             (''player_color'', CStr perspective),
             (''game_url'', url)]"
    by (auto simp: generate_row_def exn_bind_def split: sum.splits)
  with 1 2 3 4 5 6 7 that show thesis by blast
qed

lemma difficulty_bucket_int:
  "difficulty_bucket (CInt d) =
     Inr (if d \<ge> 100 then ''Much Stronger (+100+)''
          else if d \<ge> 25 then ''Stronger (+25 to +99)''
          else if d > - 25 then ''Similar ('' @ [CHR 0xB1] @ ''25)''
          else if d > - 100 then ''Weaker (-25 to -99)''
          else ''Much Weaker (-100+)'')"
  by (simp add: difficulty_bucket_def cell_ge_def cell_gt_def exn_bind_def)

text \<open>
  Claim C8. The difficulty category of a perspective row is the bucket of its
  \<^verbatim>\<open>rating_diff\<close>, and on an integer the bucket is the first rule that matches in the
  chain: at least 100, \<^verbatim>\<open>Much Stronger\<close>; at least 25, \<^verbatim>\<open>Stronger\<close>; above -25, \<^verbatim>\<open>Similar\<close>;
  above -100, \<^verbatim>\<open>Weaker\<close>; else \<^verbatim>\<open>Much Weaker\<close>. The boundaries 100, 25, -25 and -100 fall
  in \<^verbatim>\<open>Much Stronger\<close>, \<^verbatim>\<open>Stronger\<close>, \<^verbatim>\<open>Weaker\<close> and \<^verbatim>\<open>Much Weaker\<close>. (The labels of the
  code carry the range in parentheses.)
\<close>

theorem difficulty_by_first_match:
  assumes "generate_row row perspective = Inr out"
  shows "\<exists>rating_diff difficulty.
      map_of out ''rating_diff'' = Some rating_diff \<and>
      map_of out ''difficulty_category'' = Some (CStr difficulty) \<and>
      difficulty_bucket rating_diff = Inr difficulty \<and>
      (\<forall>d. difficulty_bucket (CInt d) =
         Inr (if d \<ge> 100 then ''Much Stronger (+100+)''
              else if d \<ge> 25 then ''Stronger (+25 to +99)''
              else if d > - 25 then ''Similar ('' @ [CHR 0xB1] @ ''25)''
              else if d > - 100 then ''Weaker (-25 to -99)''
              else ''Much Weaker (-100+)'')) \<and>
      difficulty_bucket (CInt 100) = Inr ''Much Stronger (+100+)'' \<and>
      difficulty_bucket (CInt 25) = Inr ''Stronger (+25 to +99)'' \<and>
      difficulty_bucket (CInt (- 25)) = Inr ''Weaker (-25 to -99)'' \<and>
      difficulty_bucket (CInt (- 100)) = Inr ''Much Weaker (-100+)''"
proof -
  from assms obtain rating_diff difficulty where
    "difficulty_bucket rating_diff = Inr difficulty"
    "map_of out ''rating_diff'' = Some rating_diff"
    "map_of out ''difficulty_category'' = Some (CStr difficulty)"
    by (elim generate_row_cases) simp
  then show ?thesis
    by (intro exI[of _ rating_diff] exI[of _ difficulty]) (simp add: difficulty_bucket_int)
qed

lemma frame_row_as_white: "generate_row frame_row ''white'' = Inr as_white"
  by code_simp

lemma frame_row_as_black: "generate_row frame_row ''black'' = Inr as_black"
  by code_simp

theorem difficulty_by_first_match_witness:
  "generate_row frame_row ''white'' = Inr as_white \<and>
   map_of as_white ''rating_diff'' = Some (CInt 100) \<and>
   map_of as_white ''difficulty_category'' = Some (CStr ''Much Stronger (+100+)'') \<and>
   difficulty_bucket (CInt 100) = Inr ''Much Stronger (+100+)''"
  using difficulty_by_first_match[OF frame_row_as_white] frame_row_as_white
  by (simp add: as_white_def)

lemma rows_of_game_cases:
  assumes "rows_of_game subjects row = Inr rs"
  obtains wu bu where
    "cell_item row ''white_username'' = Inr wu"
    "cell_item row ''black_username'' = Inr bu"
    "map Inr rs =
       (if cell_in wu subjects then [generate_row row ''white''] else []) @
       (if cell_in bu subjects then [generate_row row ''black''] else [])"
proof -
  from assms obtain wu where 1: "cell_item row ''white_username'' = Inr wu"
    by (cases "cell_item row ''white_username''") (simp_all add: rows_of_game_def exn_bind_def)
  from assms 1 obtain bu where 2: "cell_item row ''black_username'' = Inr bu"
    by (cases "cell_item row ''black_username''")
      (auto simp: rows_of_game_def exn_bind_def split: sum.splits if_splits)
  from assms 1 2 have "map Inr rs =
       (if cell_in wu subjects then [generate_row row ''white''] else []) @
       (if cell_in bu subjects then [generate_row row ''black''] else [])"
    by (auto simp: rows_of_game_def exn_bind_def split: sum.splits if_splits)
  with 1 2 that show thesis by blast
qed

lemma generate_row_rating_diff:
  assumes "generate_row row perspective = Inr g"
    and "map_of row ''white_rating'' = Some (CInt a)"
    and "map_of row ''black_rating'' = Some (CInt b)"
  shows "map_of g ''rating_diff'' = Some (CInt (if perspective = ''white'' then a - b else b - a))"
  using assms(1)
proof (rule generate_row_cases)
  fix player opponent player_rating opponent_rating winner_cell rating_diff difficulty
    end_date end_time end_datetime gt opening_name move_count url
  assume pr: "cell_item row (if perspective = ''white'' then ''white_rating'' else ''black_rating'') = Inr player_rating"
    and opr: "cell_item row (if perspective = ''white'' then ''black_rating'' else ''white_rating'') = Inr opponent_rating"
    and sub: "cell_sub player_rating opponent_rating = Inr rating_diff"
    and out: "g = [(''game_date'', end_date),
             (''game_time'', end_time),
             (''end_datetime'', end_datetime),
             (''player_name'', player),
             (''opponent_name'', opponent),
             (''player_rating'', player_rating),
             (''opponent_rating'', opponent_rating),
             (''rating_diff'', rating_diff),
             (''difficulty_category'', CStr difficulty),
             (''result_status'', CStr (result_status_of winner_cell player)),
             (''game_type'', gt),
             (''opening_name'', opening_name),
             (''move_count'', move_count),
             (''player_color'', CStr perspective),
             (''game_url'', url)]"
  from pr opr assms(2,3) have "player_rating = CInt (if perspective = ''white'' then a else b)"
    "opponent_rating = CInt (if perspective = ''white'' then b else a)"
    by (auto simp: cell_item_def split: if_splits)
  with sub have "rating_diff = CInt (if perspective = ''white'' then a - b else b - a)"
    by (auto simp: cell_sub_def split: if_splits)
  with out show ?thesis by simp
qed

lemma generate_row_player:
  assumes "generate_row row perspective = Inr g"
  shows "map_of g ''player_color'' = Some (CStr perspective)"
    and "cell_item row (if perspective = ''white'' then ''white_username'' else ''black_username'')
           = Inr player \<Longrightarrow> map_of g ''player_name'' = Some player"
  using assms by (auto elim!: generate_row_cases)

text \<open>
  Claim C7. For one row of the frame and a list of subjects, the rows emitted are the
  row generated for white when white's username is a subject, followed by the row
  generated for black when black's username is a subject: none, one or two rows. Each
  carries the username and the colour of its side, and with integer ratings the
  \<^verbatim>\<open>rating_diff\<close> of the black row is the negation of that of the white row (each is the
  player's rating minus the opponent's).
\<close>

theorem one_row_per_tracked_side:
  assumes "rows_of_game subjects row = Inr rs"
  shows "\<exists>wu bu.
      cell_item row ''white_username'' = Inr wu \<and>
      cell_item row ''black_username'' = Inr bu \<and>
      map Inr rs =
        (if cell_in wu subjects then [generate_row row ''white''] else []) @
        (if cell_in bu subjects then [generate_row row ''black''] else []) \<and>
      length rs = (if cell_in wu subjects then 1 else 0) + (if cell_in bu subjects then 1 else 0) \<and>
      (\<forall>g. generate_row row ''white'' = Inr g \<longrightarrow>
            map_of g ''player_name'' = Some wu \<and>
            map_of g ''player_color'' = Some (CStr ''white'')) \<and>
      (\<forall>g. generate_row row ''black'' = Inr g \<longrightarrow>
            map_of g ''player_name'' = Some bu \<and>
            map_of g ''player_color'' = Some (CStr ''black'')) \<and>
      (\<forall>gw gb a b.
         generate_row row ''white'' = Inr gw \<and> generate_row row ''black'' = Inr gb \<and>
         map_of row ''white_rating'' = Some (CInt a) \<and>
         map_of row ''black_rating'' = Some (CInt b) \<longrightarrow>
           map_of gw ''rating_diff'' = Some (CInt (a - b)) \<and>
           map_of gb ''rating_diff'' = Some (CInt (- (a - b))))"
proof -
  from assms obtain wu bu where c:
    "cell_item row ''white_username'' = Inr wu"
    "cell_item row ''black_username'' = Inr bu"
    "map Inr rs =
       (if cell_in wu subjects then [generate_row row ''white''] else []) @
       (if cell_in bu subjects then [generate_row row ''black''] else [])"
    by (rule rows_of_game_cases)
  have len: "length rs = (if cell_in wu subjects then 1 else 0) + (if cell_in bu subjects then 1 else 0)"
  proof -
    have "length rs = length (map (Inr :: series \<Rightarrow> py_exception + series) rs)" by simp
    also have "\<dots> = (if cell_in wu subjects then 1 else 0) + (if cell_in bu subjects then 1 else 0)"
      unfolding c(3) by simp
    finally show ?thesis .
  qed
  have w: "map_of g ''player_name'' = Some wu \<and> map_of g ''player_color'' = Some (CStr ''white'')"
    if "generate_row row ''white'' = Inr g" for g
    using generate_row_player[OF that] c(1) by simp
  have b: "map_of g ''player_name'' = Some bu \<and> map_of g ''player_color'' = Some (CStr ''black'')"
    if "generate_row row ''black'' = Inr g" for g
    using generate_row_player[OF that] c(2) by simp
  have rd: "map_of gw ''rating_diff'' = Some (CInt (a - b)) \<and>
           map_of gb ''rating_diff'' = Some (CInt (- (a - b)))"
    if "generate_row row ''white'' = Inr gw" "generate_row row ''black'' = Inr gb"
      "map_of row ''white_rating'' = Some (CInt a)" "map_of row ''black_rating'' = Some (CInt b)"
    for gw gb a b
    using generate_row_rating_diff[OF that(1) that(3,4)]
      generate_row_rating_diff[OF that(2) that(3,4)] by simp
  from c len w b rd show ?thesis by blast
qed

theorem one_row_per_tracked_side_witness:
  "rows_of_game [CStr ''A'', CStr ''B''] frame_row = Inr [as_white, as_black] \<and>
   rows_of_game [CStr ''A''] frame_row = Inr [as_white] \<and>
   rows_of_game [CStr ''C''] frame_row = Inr [] \<and>
   map_of as_white ''rating_diff'' = Some (CInt 100) \<and>
   map_of as_black ''rating_diff'' = Some (CInt (- 100))"
proof -
  have r: "rows_of_game [CStr ''A'', CStr ''B''] frame_row = Inr [as_white, as_black]"
    "rows_of_game [CStr ''A''] frame_row = Inr [as_white]"
    "rows_of_game [CStr ''C''] frame_row = Inr []"
    by code_simp+
  have m: "map_of frame_row ''white_rating'' = Some (CInt 1500)"
    "map_of frame_row ''black_rating'' = Some (CInt 1400)"
    by (simp_all add: frame_row_def)
  from one_row_per_tracked_side[OF r(1)] frame_row_as_white frame_row_as_black m
  have "map_of as_white ''rating_diff'' = Some (CInt 100) \<and>
        map_of as_black ''rating_diff'' = Some (CInt (- 100))"
    by fastforce
  with r show ?thesis by simp
qed


lemma perspective_rows_elem:
  assumes "perspective_rows subjects df = Inr rows" and "g \<in> set rows"
  shows "\<exists>row perspective. row \<in> set df \<and> generate_row row perspective = Inr g"
  using assms
proof (induction df arbitrary: rows)
  case Nil
  then show ?case by simp
next
  case (Cons row df)
  from Cons.prems(1) obtain rs others where
    rs: "rows_of_game subjects row = Inr rs" and
    others: "perspective_rows subjects df = Inr others" and
    rows: "rows = rs @ others"
    by (auto split: sum.splits)
  from Cons.prems(2) rows consider "g \<in> set rs" | "g \<in> set others" by auto
  then show ?case
  proof cases
    case 1
    from rs obtain wu bu where m: "map Inr rs =
       (if cell_in wu subjects then [generate_row row ''white''] else []) @
       (if cell_in bu subjects then [generate_row row ''black''] else [])"
      by (rule rows_of_game_cases)
    from 1 have "Inr g \<in> set (map (Inr :: series \<Rightarrow> py_exception + series) rs)" by simp
    then have "generate_row row ''white'' = Inr g \<or> generate_row row ''black'' = Inr g"
      unfolding m by (auto split: if_splits)
    then show ?thesis by auto
  next
    case 2
    from Cons.IH[OF others 2] show ?thesis by auto
  qed
qed

lemma generate_row_status:
  assumes "generate_row row perspective = Inr g"
  shows "\<exists>player winner_cell.
      map_of g ''player_name'' = Some player \<and> map_of row ''winner'' = Some winner_cell \<and>
      map_of g ''result_status'' = Some (CStr (result_status_of winner_cell player)) \<and>
      map_of g ''is_win'' = None \<and> map_of g ''is_loss'' = None \<and> map_of g ''is_draw'' = None"
  using assms
  by (elim generate_row_cases) (auto simp: cell_item_def split: option.splits)

lemma result_status_of_values:
  "result_status_of w p \<in> {''Win'', ''Draw'', ''Loss''}"
  "p \<noteq> CStr ''nan'' \<Longrightarrow> result_status_of CNaN p = ''Loss''"
  "p \<noteq> CStr [] \<Longrightarrow> result_status_of (CStr []) p = ''Loss''"
  by (cases p; simp add: result_status_of_def cell_str_def Let_def)+

lemma bi_flags_values:
  assumes "map_of g ''result_status'' = Some (CStr st)"
  shows "map_of (bi_flags g) ''result_status'' = Some (CStr st)"
    and "map_of (bi_flags g) ''is_win'' = Some (CInt (if st = ''Win'' then 1 else 0))"
    and "map_of (bi_flags g) ''is_loss'' = Some (CInt (if st = ''Loss'' then 1 else 0))"
    and "map_of (bi_flags g) ''is_draw'' = Some (CInt (if st = ''Draw'' then 1 else 0))"
    and "map_of (bi_flags g) ''player_name'' = map_of g ''player_name''"
  using assms by (simp_all add: bi_flags_def flag_def update_conv')

lemma loss_on_unresolved:
  assumes "generate_row row perspective = Inr g"
    and "map_of g ''player_name'' = Some player"
    and "map_of row ''winner'' = Some CNaN \<and> player \<noteq> CStr ''nan'' \<or>
         map_of row ''winner'' = Some (CStr []) \<and> player \<noteq> CStr []"
  shows "map_of (bi_flags g) ''result_status'' = Some (CStr ''Loss'')"
    and "map_of (bi_flags g) ''is_loss'' = Some (CInt 1)"
proof -
  from generate_row_status[OF assms(1)] assms(2) obtain winner_cell where s:
    "map_of row ''winner'' = Some winner_cell"
    "map_of g ''result_status'' = Some (CStr (result_status_of winner_cell player))"
    by auto
  from assms(3) s(1) have "result_status_of winner_cell player = ''Loss''"
    using result_status_of_values(2,3) by auto
  with s(2) have "map_of g ''result_status'' = Some (CStr ''Loss'')" by simp
  from bi_flags_values(1,3)[OF this]
  show "map_of (bi_flags g) ''result_status'' = Some (CStr ''Loss'')"
    and "map_of (bi_flags g) ''is_loss'' = Some (CInt 1)"
    by simp_all
qed

text \<open>
  Claim C10. Every row that \<^verbatim>\<open>create_perspective_data\<close> writes has a \<^verbatim>\<open>result_status\<close>
  among \<^verbatim>\<open>Win\<close>, \<^verbatim>\<open>Draw\<close> and \<^verbatim>\<open>Loss\<close>, and exactly one of its flags \<^verbatim>\<open>is_win\<close>, \<^verbatim>\<open>is_loss\<close>,
  \<^verbatim>\<open>is_draw\<close> is 1. It is the flagged row of some row of the frame, and whenever the
  winner of that frame row is missing (the empty winner of an unresolved outcome, as
  \<^verbatim>\<open>read_csv\<close> reads it back) or the empty string, the status is \<^verbatim>\<open>Loss\<close> and \<^verbatim>\<open>is_loss\<close> is
  1. The player's name must not be the text \<^verbatim>\<open>nan\<close> in the first case nor empty in the
  second; \<^verbatim>\<open>read_csv\<close> reads both texts as missing values, so no cell of the frame holds
  them. The sort of the output is any function that returns the rows it is given.
\<close>

theorem status_and_flags:
  assumes "create_perspective_data pd (Some df) subjects = Inr (Some out)"
    and "permutes_rows (sort_rows pd)"
    and "r \<in> set out"
  shows "(\<exists>st iw il idr.
      map_of r ''result_status'' = Some (CStr st) \<and> st \<in> {''Win'', ''Draw'', ''Loss''} \<and>
      map_of r ''is_win'' = Some (CInt iw) \<and> iw = (if st = ''Win'' then 1 else 0) \<and>
      map_of r ''is_loss'' = Some (CInt il) \<and> il = (if st = ''Loss'' then 1 else 0) \<and>
      map_of r ''is_draw'' = Some (CInt idr) \<and> idr = (if st = ''Draw'' then 1 else 0) \<and>
      iw + il + idr = 1) \<and>
    (\<exists>row perspective g. row \<in> set df \<and> generate_row row perspective = Inr g \<and> r = bi_flags g) \<and>
    (\<forall>row perspective g player.
       generate_row row perspective = Inr g \<and> r = bi_flags g \<and>
       map_of g ''player_name'' = Some player \<and>
       (map_of row ''winner'' = Some CNaN \<and> player \<noteq> CStr ''nan'' \<or>
        map_of row ''winner'' = Some (CStr []) \<and> player \<noteq> CStr []) \<longrightarrow>
       map_of r ''result_status'' = Some (CStr ''Loss'') \<and>
       map_of r ''is_loss'' = Some (CInt 1))"
proof -
  from assms(1) obtain rows where
    rows: "perspective_rows (case subjects of None \<Rightarrow> top_players pd df | Some given \<Rightarrow> given) df = Inr rows"
    and srt: "sort_rows pd ''game_time'' (map bi_flags rows) = Inr out"
    by (auto simp: create_perspective_data_def exn_bind_def Let_def split: sum.splits if_splits)
  from assms(2) srt have "mset out = mset (map bi_flags rows)"
    unfolding permutes_rows_def by blast
  then have "set out = set (map bi_flags rows)" by (rule mset_eq_setD)
  with assms(3) obtain g where g: "g \<in> set rows" and r: "r = bi_flags g" by auto
  from perspective_rows_elem[OF rows g] obtain row perspective where
    row: "row \<in> set df" and gen: "generate_row row perspective = Inr g" by blast
  from generate_row_status[OF gen] obtain player winner_cell where s:
    "map_of g ''result_status'' = Some (CStr (result_status_of winner_cell player))"
    by blast
  let ?st = "result_status_of winner_cell player"
  note fl = bi_flags_values[OF s]
  have st: "?st \<in> {''Win'', ''Draw'', ''Loss''}" by (rule result_status_of_values(1))
  have sum1: "(if ?st = ''Win'' then 1 else 0) + (if ?st = ''Loss'' then 1 else 0) +
     (if ?st = ''Draw'' then 1 else (0::int)) = 1"
    using st by auto
  have first: "\<exists>st iw il idr.
      map_of r ''result_status'' = Some (CStr st) \<and> st \<in> {''Win'', ''Draw'', ''Loss''} \<and>
      map_of r ''is_win'' = Some (CInt iw) \<and> iw = (if st = ''Win'' then 1 else 0) \<and>
      map_of r ''is_loss'' = Some (CInt il) \<and> il = (if st = ''Loss'' then 1 else 0) \<and>
      map_of r ''is_draw'' = Some (CInt idr) \<and> idr = (if st = ''Draw'' then 1 else 0) \<and>
      iw + il + idr = 1"
    apply (rule exI[of _ ?st])
    apply (rule exI[of _ "if ?st = ''Win'' then 1 else 0"])
    apply (rule exI[of _ "if ?st = ''Loss'' then 1 else 0"])
    apply (rule exI[of _ "if ?st = ''Draw'' then 1 else 0"])
    using fl(1-4) st sum1 r
    apply simp
    done
  have second: "\<exists>row perspective g. row \<in> set df \<and> generate_row row perspective = Inr g \<and> r = bi_flags g"
    using row gen r by blast
  have third: "\<forall>row perspective g player.
       generate_row row perspective = Inr g \<and> r = bi_flags g \<and>
       map_of g ''player_name'' = Some player \<and>
       (map_of row ''winner'' = Some CNaN \<and> player \<noteq> CStr ''nan'' \<or>
        map_of row ''winner'' = Some (CStr []) \<and> player \<noteq> CStr []) \<longrightarrow>
       map_of r ''result_status'' = Some (CStr ''Loss'') \<and>
       map_of r ''is_loss'' = Some (CInt 1)"
    using loss_on_unresolved by blast
  from first second third show ?thesis by blast
qed

lemma permutes_stable_sort_rows: "permutes_rows stable_sort_rows"
  by (auto simp: permutes_rows_def stable_sort_rows_def split: if_splits)

lemma unresolved_projection:
  "create_perspective_data frame_double (Some [unresolved_frame_row]) (Some [CStr ''A''])
     = Inr (Some [unresolved_as_white])"
  by code_simp

theorem status_and_flags_witness:
  "create_perspective_data frame_double (Some [unresolved_frame_row]) (Some [CStr ''A''])
     = Inr (Some [unresolved_as_white]) \<and>
   permutes_rows (sort_rows frame_double) \<and>
   unresolved_as_white \<in> set [unresolved_as_white] \<and>
   map_of unresolved_frame_row ''winner'' = Some CNaN \<and>
   map_of unresolved_as_white ''player_name'' = Some (CStr ''A'') \<and>
   CStr ''A'' \<noteq> CStr ''nan'' \<and>
   map_of unresolved_as_white ''result_status'' = Some (CStr ''Loss'') \<and>
   map_of unresolved_as_white ''is_win'' = Some (CInt 0) \<and>
   map_of unresolved_as_white ''is_loss'' = Some (CInt 1) \<and>
   map_of unresolved_as_white ''is_draw'' = Some (CInt 0)"
proof -
  have p: "permutes_rows (sort_rows frame_double)"
    by (simp add: frame_double_def permutes_stable_sort_rows)
  have m: "unresolved_as_white \<in> set [unresolved_as_white]" by simp
  from status_and_flags[OF unresolved_projection p m]
  have "\<exists>st iw il idr.
      map_of unresolved_as_white ''result_status'' = Some (CStr st) \<and>
      map_of unresolved_as_white ''is_win'' = Some (CInt iw) \<and>
      map_of unresolved_as_white ''is_loss'' = Some (CInt il) \<and>
      map_of unresolved_as_white ''is_draw'' = Some (CInt idr) \<and> iw + il + idr = 1"
    by blast
  then show ?thesis
    using unresolved_projection p
    by (simp add: unresolved_as_white_def unresolved_frame_row_def)
qed

section \<open>The notation parser's failures\<close>

lemma opening_from_url_keeps:
  "k \<noteq> ''opening_name'' \<Longrightarrow> map_of (opening_from_url lib game gi) k = map_of gi k"
  by (auto simp: opening_from_url_def Let_def map_of_update split: list.splits)

lemma opening_from_url_keys:
  "''opening_name'' \<in> set (map fst gi) \<Longrightarrow> map fst (opening_from_url lib game gi) = map fst gi"
  by (auto simp: opening_from_url_def Let_def update_keys split: list.splits)

text \<open>
  Claim C9, as the code has it. \<^verbatim>\<open>parse_pgn_game\<close> always returns a dict with its four
  keys: no failure reaches the caller. When the text cannot be read (it is no str, the
  library raises while reading, or it finds no game) the dict is the zero-value result.
  When the game is read and a later step raises (the starting board, or a move), the
  move count is 0 and the opening code and the result are those of the headers, which
  were stored before the failure.
\<close>

theorem parser_recovers_silently:
  "map fst (parse_pgn_game lib pgn) = [''move_count'', ''eco_code'', ''opening_name'', ''result''] \<and>
   ((\<exists>e. read_pgn lib pgn = Inl e) \<or> read_pgn lib pgn = Inr None \<longrightarrow>
      parse_pgn_game lib pgn = zero_info) \<and>
   (\<forall>game. read_pgn lib pgn = Inr (Some game) \<and>
      ((\<exists>e. board lib game = Inl e) \<or>
       (\<exists>b e. board lib game = Inr b \<and> count_moves lib b (mainline_moves lib game) 0 = Inl e)) \<longrightarrow>
      map_of (parse_pgn_game lib pgn) ''move_count'' = Some (JInt 0) \<and>
      map_of (parse_pgn_game lib pgn) ''eco_code'' = Some (opt_str (headers_get lib game ''ECO'')) \<and>
      map_of (parse_pgn_game lib pgn) ''result'' = Some (opt_str (headers_get lib game ''Result'')))"
proof (intro conjI allI impI)
  show "map fst (parse_pgn_game lib pgn) = [''move_count'', ''eco_code'', ''opening_name'', ''result'']"
    by (auto simp: parse_pgn_game_def Let_def update_keys opening_from_url_keys
        split: sum.splits option.splits)
next
  assume "(\<exists>e. read_pgn lib pgn = Inl e) \<or> read_pgn lib pgn = Inr None"
  then show "parse_pgn_game lib pgn = zero_info"
    by (auto simp: parse_pgn_game_def zero_info_def)
next
  fix game
  assume a: "read_pgn lib pgn = Inr (Some game) \<and>
      ((\<exists>e. board lib game = Inl e) \<or>
       (\<exists>b e. board lib game = Inr b \<and> count_moves lib b (mainline_moves lib game) 0 = Inl e))"
  then show "map_of (parse_pgn_game lib pgn) ''move_count'' = Some (JInt 0)"
    by (auto simp: parse_pgn_game_def Let_def opening_from_url_keeps map_of_update)
  from a show "map_of (parse_pgn_game lib pgn) ''eco_code'' = Some (opt_str (headers_get lib game ''ECO''))"
    by (auto simp: parse_pgn_game_def Let_def opening_from_url_keeps map_of_update)
  from a show "map_of (parse_pgn_game lib pgn) ''result'' = Some (opt_str (headers_get lib game ''Result''))"
    by (auto simp: parse_pgn_game_def Let_def opening_from_url_keeps map_of_update)
qed

text \<open>
  Claim C9 as stated fails for a failure after the headers are read: on a text whose
  headers name an unknown variant, the board raises and the dict returned still holds
  the opening code and the result.
\<close>

theorem headers_survive_board_failure:
  "read_pgn unknown_variant_lib (JStr unknown_variant_pgn) = Inr (Some ()) \<and>
   board unknown_variant_lib () = Inl ValueError \<and>
   parse_pgn_game unknown_variant_lib (JStr unknown_variant_pgn) =
     [(''move_count'', JInt 0), (''eco_code'', JStr ''B20''),
      (''opening_name'', JNull), (''result'', JStr ''1-0'')]"
  by code_simp

theorem parser_recovers_silently_witness:
  "read_pgn unknown_variant_lib (JStr []) = Inr None \<and>
   parse_pgn_game unknown_variant_lib (JStr []) = zero_info \<and>
   read_pgn unknown_variant_lib (JInt 7) = Inl TypeError \<and>
   parse_pgn_game unknown_variant_lib (JInt 7) = zero_info \<and>
   read_pgn unknown_variant_lib (JStr unknown_variant_pgn) = Inr (Some ()) \<and>
   board unknown_variant_lib () = Inl ValueError \<and>
   map_of (parse_pgn_game unknown_variant_lib (JStr unknown_variant_pgn)) ''move_count'' = Some (JInt 0)"
proof -
  have r: "read_pgn unknown_variant_lib (JStr []) = Inr None"
    "read_pgn unknown_variant_lib (JInt 7) = Inl TypeError"
    "read_pgn unknown_variant_lib (JStr unknown_variant_pgn) = Inr (Some ())"
    "board unknown_variant_lib () = Inl ValueError"
    by code_simp+
  from parser_recovers_silently[of unknown_variant_lib "JStr []"] r(1)
  have 1: "parse_pgn_game unknown_variant_lib (JStr []) = zero_info" by simp
  from parser_recovers_silently[of unknown_variant_lib "JInt 7"] r(2)
  have 2: "parse_pgn_game unknown_variant_lib (JInt 7) = zero_info" by simp
  from parser_recovers_silently[of unknown_variant_lib "JStr unknown_variant_pgn"] r(3,4)
  have 3: "map_of (parse_pgn_game unknown_variant_lib (JStr unknown_variant_pgn)) ''move_count'' = Some (JInt 0)"
    by blast
  from r 1 2 3 show ?thesis by simp
qed

section \<open>Deduplication and order of the dataset\<close>

lemma py_eq_hashable:
  "hashable a \<Longrightarrow> hashable b \<Longrightarrow> py_eq a b \<longleftrightarrow> num_norm a = num_norm b"
  by (cases a; cases b) (auto simp: hashable_def num_norm_def)

lemma list_ex_py_eq_hashable:
  assumes "hashable a" and "list_all hashable seen"
  shows "list_ex (py_eq a) seen \<longleftrightarrow> num_norm a \<in> num_norm ` set seen"
  using assms by (auto simp: list_ex_iff list_all_iff py_eq_hashable)

lemma keep_first_nths:
  assumes "list_all (\<lambda>row. hashable (column col row)) rows" and "list_all hashable seen"
  shows "keep_first col seen rows =
     nths rows {i. i < length rows \<and>
                   num_norm (column col (rows ! i)) \<notin> num_norm ` set seen \<and>
                   (\<forall>j<i. num_norm (column col (rows ! j)) \<noteq> num_norm (column col (rows ! i)))}"
  using assms
proof (induction rows arbitrary: seen)
  case Nil
  then show ?case by simp
next
  case (Cons r rs)
  let ?k = "\<lambda>row. num_norm (column col row)"
  let ?S = "num_norm ` set seen"
  let ?A = "{i. i < length (r # rs) \<and> ?k ((r # rs) ! i) \<notin> ?S \<and>
                (\<forall>j<i. ?k ((r # rs) ! j) \<noteq> ?k ((r # rs) ! i))}"
  from Cons.prems have hr: "hashable (column col r)"
    and hrs: "list_all (\<lambda>row. hashable (column col row)) rs" by simp_all
  have tail: "{j. Suc j \<in> ?A} =
      {j. j < length rs \<and> ?k (rs ! j) \<notin> ?S \<and> ?k r \<noteq> ?k (rs ! j) \<and>
          (\<forall>j'<j. ?k (rs ! j') \<noteq> ?k (rs ! j))}"
    by (auto simp: less_Suc_eq_0_disj)
  have head: "0 \<in> ?A \<longleftrightarrow> ?k r \<notin> ?S" by simp
  have seen_iff: "list_ex (py_eq (column col r)) seen \<longleftrightarrow> ?k r \<in> ?S"
    using hr Cons.prems(2) by (rule list_ex_py_eq_hashable)
  show ?case
  proof (cases "?k r \<in> ?S")
    case True
    then have "{j. Suc j \<in> ?A} =
      {j. j < length rs \<and> ?k (rs ! j) \<notin> ?S \<and> (\<forall>j'<j. ?k (rs ! j') \<noteq> ?k (rs ! j))}"
      unfolding tail by auto
    with True seen_iff head Cons.IH[OF hrs Cons.prems(2)] show ?thesis
      by (simp add: nths_Cons)
  next
    case False
    have h': "list_all hashable (column col r # seen)" using hr Cons.prems(2) by simp
    have "{j. Suc j \<in> ?A} =
      {j. j < length rs \<and> ?k (rs ! j) \<notin> num_norm ` set (column col r # seen) \<and>
          (\<forall>j'<j. ?k (rs ! j') \<noteq> ?k (rs ! j))}"
      unfolding tail by auto
    with False seen_iff head Cons.IH[OF hrs h'] show ?thesis
      by (simp add: nths_Cons)
  qed
qed

lemma first_occurrence_indices:
  assumes "list_all (\<lambda>row. hashable (column col row)) rows"
  shows "{i. i < length rows \<and>
             (\<forall>j<i. num_norm (column col (rows ! j)) \<noteq> num_norm (column col (rows ! i)))} =
         {i. i < length rows \<and>
             (\<forall>j<i. \<not> py_eq (column col (rows ! j)) (column col (rows ! i)))}"
proof -
  have "py_eq (column col (rows ! j)) (column col (rows ! i)) \<longleftrightarrow>
        num_norm (column col (rows ! j)) = num_norm (column col (rows ! i))"
    if "i < length rows" "j < i" for i j
  proof -
    from that assms have "hashable (column col (rows ! i))" "hashable (column col (rows ! j))"
      by (simp_all add: list_all_length)
    then show ?thesis by (simp add: py_eq_hashable)
  qed
  then show ?thesis by auto
qed


text \<open>
  Claim C5. \<^verbatim>\<open>drop_duplicates\<close> on the url column keeps exactly the rows at the positions
  where a url occurs for the first time in the concatenated rows of the archives, in
  their order (and raises TypeError when a url cannot be hashed). The dataset that
  \<^verbatim>\<open>process_all_files\<close> returns consists of these rows, for any sort that returns the rows
  it is given.
\<close>

theorem first_occurrence_of_each_url:
  "drop_duplicates ''url'' games =
     (if list_all (\<lambda>row. hashable (column ''url'' row)) games
      then Inr (nths games {i. i < length games \<and>
                  (\<forall>j<i. \<not> py_eq (column ''url'' (games ! j)) (column ''url'' (games ! i)))})
      else Inl TypeError) \<and>
   (\<forall>files out.
      returns_rows (sort_values pf) \<and> all_games lib pf files = Inr games \<and>
      process_all_files lib pf files = Inr out \<longrightarrow>
      mset out = mset (nths games {i. i < length games \<and>
                  (\<forall>j<i. \<not> py_eq (column ''url'' (games ! j)) (column ''url'' (games ! i)))}))"
proof (intro conjI allI impI)
  show dd: "drop_duplicates ''url'' games =
     (if list_all (\<lambda>row. hashable (column ''url'' row)) games
      then Inr (nths games {i. i < length games \<and>
                  (\<forall>j<i. \<not> py_eq (column ''url'' (games ! j)) (column ''url'' (games ! i)))})
      else Inl TypeError)"
  proof (cases "list_all (\<lambda>row. hashable (column ''url'' row)) games")
    case True
    from keep_first_nths[OF True, of "[]"] first_occurrence_indices[OF True]
    have "keep_first ''url'' [] games = nths games {i. i < length games \<and>
                  (\<forall>j<i. \<not> py_eq (column ''url'' (games ! j)) (column ''url'' (games ! i)))}"
      by simp
    with True show ?thesis by (simp add: drop_duplicates_def)
  next
    case False
    then show ?thesis by (simp add: drop_duplicates_def)
  qed
  fix files out
  assume a: "returns_rows (sort_values pf) \<and> all_games lib pf files = Inr games \<and>
      process_all_files lib pf files = Inr out"
  let ?firsts = "nths games {i. i < length games \<and>
                  (\<forall>j<i. \<not> py_eq (column ''url'' (games ! j)) (column ''url'' (games ! i)))}"
  show "mset out = mset ?firsts"
  proof (cases "files = [] \<or> games = []")
    case True
    with a have "out = []" "games = []"
      by (auto simp: process_all_files_def exn_bind_def split: if_splits)
    then show ?thesis by simp
  next
    case False
    with a obtain df where df: "drop_duplicates ''url'' games = Inr df"
      and srt: "sort_values pf ''end_time'' df = Inr out"
      by (auto simp: process_all_files_def exn_bind_def split: sum.splits)
    from df dd have "df = ?firsts" by (auto split: if_splits)
    moreover from a srt have "mset out = mset df" unfolding returns_rows_def by blast
    ultimately show ?thesis by simp
  qed
qed

lemma sample_parse:
  "parse_pgn_game sample_lib (JStr ''1. e4 e5 1-0'') =
     [(''move_count'', JInt 2), (''eco_code'', JNull), (''opening_name'', JNull),
      (''result'', JStr ''1-0'')]"
  by code_simp

lemma sample_base_time: "base_time (JStr ''600'') = Inr 600"
  by code_simp

lemma sample_tokens:
  "py_lower (py_str (JStr ''win'')) = ''win''"
  "py_lower (py_str (JStr ''resigned'')) = ''resigned''"
  by code_simp+

lemma sample_extracted:
  assumes "fromtimestamp pf = utc_first_day" and "0 < t" and "t < 86400"
  shows "extract_game_data sample_lib pf (sample_game url t) = Some (sample_row url t)"
  using assms
  by (simp add: extract_game_data_def extract_game_data_body_def exn_bind_def
      sample_game_def sample_row_def
      validate_chess_data_def required_fields_def py_in_def hashable_def
      basic_information_def player_field_def py_getitem_def dict_item_def attr_get_def
      dict_get_def date_parts_def utc_first_day_def py_truthy_def rating_difference_def py_sub_def
      as_number_def game_type_def sample_base_time pgn_information_def sample_parse
      winner_and_result_def player_result_def sample_tokens boolean_flags_def)


lemma sample_row_columns:
  "column ''url'' (sample_row url t) = JStr url"
  "column ''end_time'' (sample_row url t) = JInt t"
  "int_key ''end_time'' (sample_row url t) = t"
  "sample_row url t \<noteq> []"
  by (simp_all add: column_def dict_get_def int_key_def sample_row_def)

lemma sample_all_games:
  assumes "fromtimestamp pf = utc_first_day"
  shows "all_games sample_lib pf sample_files = Inr sample_games"
  by (simp add: sample_files_def sample_games_def process_json_file_def py_truthy_def
      attr_get_def dict_get_def py_iter_def exn_bind_def sample_extracted[OF assms]
      sample_row_columns)

lemma sample_hashable: "list_all (\<lambda>row. hashable (column ''url'' row)) sample_games"
  by (simp add: sample_games_def sample_row_columns hashable_def)


lemma sample_dedup:
  "drop_duplicates ''url'' sample_games =
     Inr [sample_row ''u1'' 300, sample_row ''u2'' 100, sample_row ''u3'' 100]"
  using sample_hashable
  by (simp add: drop_duplicates_def) (simp add: sample_games_def sample_row_columns)

lemma sample_int_column_dedup:
  "int_column ''end_time'' [sample_row ''u1'' 300, sample_row ''u2'' 100, sample_row ''u3'' 100]"
  by (simp add: int_column_def sample_row_columns)

lemma sample_processed:
  "process_all_files sample_lib platform_double sample_files
     = Inr [sample_row ''u2'' 100, sample_row ''u3'' 100, sample_row ''u1'' 300]"
proof -
  have f: "fromtimestamp platform_double = utc_first_day" by (simp add: platform_double_def)
  have s: "sort_values platform_double = stable_sort" by (simp add: platform_double_def)
  have g: "sample_games \<noteq> []" "sample_files \<noteq> []"
    by (simp_all add: sample_games_def sample_files_def)
  show ?thesis
    using g sample_int_column_dedup
    by (simp add: process_all_files_def sample_all_games[OF f] exn_bind_def sample_dedup s
        stable_sort_def sample_row_columns)
qed


lemma returns_rows_stable_sort: "returns_rows stable_sort"
  by (auto simp: returns_rows_def stable_sort_def split: if_splits)



theorem first_occurrence_of_each_url_witness:
  "returns_rows (sort_values platform_double) \<and>
   all_games sample_lib platform_double sample_files = Inr sample_games \<and>
   map (column ''url'') sample_games = [JStr ''u1'', JStr ''u2'', JStr ''u1'', JStr ''u3''] \<and>
   nths sample_games {i. i < length sample_games \<and>
       (\<forall>j<i. \<not> py_eq (column ''url'' (sample_games ! j)) (column ''url'' (sample_games ! i)))}
     = [sample_row ''u1'' 300, sample_row ''u2'' 100, sample_row ''u3'' 100] \<and>
   process_all_files sample_lib platform_double sample_files
     = Inr [sample_row ''u2'' 100, sample_row ''u3'' 100, sample_row ''u1'' 300] \<and>
   mset [sample_row ''u2'' 100, sample_row ''u3'' 100, sample_row ''u1'' 300]
     = mset [sample_row ''u1'' 300, sample_row ''u2'' 100, sample_row ''u3'' 100]"
proof -
  have f: "fromtimestamp platform_double = utc_first_day" by (simp add: platform_double_def)
  have rr: "returns_rows (sort_values platform_double)"
    by (simp add: platform_double_def returns_rows_stable_sort)
  have u: "map (column ''url'') sample_games = [JStr ''u1'', JStr ''u2'', JStr ''u1'', JStr ''u3'']"
    by (simp add: sample_games_def sample_row_columns)
  note t = first_occurrence_of_each_url[of sample_games platform_double sample_lib]
  let ?firsts = "nths sample_games {i. i < length sample_games \<and>
       (\<forall>j<i. \<not> py_eq (column ''url'' (sample_games ! j)) (column ''url'' (sample_games ! i)))}"
  from t[THEN conjunct1] sample_hashable
  have "drop_duplicates ''url'' sample_games = Inr ?firsts"
    by (simp only: if_True)
  with sample_dedup have "Inr ?firsts =
      (Inr [sample_row ''u1'' 300, sample_row ''u2'' 100, sample_row ''u3'' 100] :: py_exception + dict list)"
    by (simp only:)
  then have n: "?firsts = [sample_row ''u1'' 300, sample_row ''u2'' 100, sample_row ''u3'' 100]"
    by (simp only: sum.inject)
  from t[THEN conjunct2, rule_format, of sample_files
      "[sample_row ''u2'' 100, sample_row ''u3'' 100, sample_row ''u1'' 300]"]
    rr sample_all_games[OF f] sample_processed
  have "mset [sample_row ''u2'' 100, sample_row ''u3'' 100, sample_row ''u1'' 300] = mset ?firsts"
    by (simp only: simp_thms)
  then have m: "mset [sample_row ''u2'' 100, sample_row ''u3'' 100, sample_row ''u1'' 300]
     = mset [sample_row ''u1'' 300, sample_row ''u2'' 100, sample_row ''u3'' 100]"
    by (simp only: n)
  from rr sample_all_games[OF f] u n sample_processed m show ?thesis
    by (intro conjI)
qed





end
